theory Spec2Isabelle
  imports Main "HOL-Library.Monad_Syntax"
begin

section \<open>Python values and exceptions\<close>

text \<open>
  Every exception the modelled code can raise is a value. \<open>ConnectionError\<close> carries
  the HTTP status code of the message \<^verbatim>\<open>Connection failed: {status_code}\<close>;
  \<open>TransportError\<close> stands for whatever the HTTP client itself raises when no response
  arrives.
\<close>

datatype py_error =
    StopIteration
  | ConnectionError int
  | AttributeError
  | TypeError
  | IndexError
  | ValueError
  | KeyError
  | OverflowError
  | OSError
  | TransportError

text \<open>The values a serialised record holds.\<close>

datatype pyval =
    PNone
  | PInt int
  | PStr string
  | PList "pyval list"
  | PDict "(string \<times> pyval) list"

text \<open>
  A Python \<open>dict\<close> with string keys is an association list in insertion order with
  distinct keys; \<open>d[k] = v\<close> overwrites in place or appends.
\<close>

fun dict_set :: "(string \<times> 'v) list \<Rightarrow> string \<Rightarrow> 'v \<Rightarrow> (string \<times> 'v) list" where
  "dict_set [] k v = [(k, v)]"
| "dict_set ((k', v') # d) k v = (if k' = k then (k, v) # d else (k', v') # dict_set d k v)"

definition opt_val :: "('a \<Rightarrow> pyval) \<Rightarrow> 'a option \<Rightarrow> pyval" where
  "opt_val f x = (case x of None \<Rightarrow> PNone | Some y \<Rightarrow> f y)"

subsection \<open>Strings\<close>

text \<open>\<^verbatim>\<open>sep.join(xs)\<close>\<close>

fun join :: "string \<Rightarrow> string list \<Rightarrow> string" where
  "join sep [] = []"
| "join sep [x] = x"
| "join sep (x # y # ys) = x @ sep @ join sep (y # ys)"

text \<open>\<^verbatim>\<open>s.partition(' ')[0]\<close>: the part of \<open>s\<close> before the first space, all of it when there is none.\<close>

definition partition_head :: "string \<Rightarrow> string" where
  "partition_head s = takeWhile (\<lambda>c. c \<noteq> CHR '' '') s"

text \<open>
  A \<open>char\<close> is read as the code point of its number, so a string is a Python string of
  code points below 256. \<open>is_space\<close> holds of those that \<^verbatim>\<open>str.isspace\<close> and the
  pattern \<^verbatim>\<open>\s\<close> accept.
\<close>

definition is_space :: "char \<Rightarrow> bool" where
  "is_space c =
     (c \<in> set [CHR '' '', CHR 0x09, CHR 0x0A, CHR 0x0B, CHR 0x0C, CHR 0x0D,
                CHR 0x1C, CHR 0x1D, CHR 0x1E, CHR 0x1F, CHR 0x85, CHR 0xA0])"

text \<open>
  The white space that \<^verbatim>\<open>int(s)\<close> drops at both ends of \<open>s\<close>: the six of C's
  \<^verbatim>\<open>isspace\<close> and, beyond ASCII, 0x85 and 0xA0; the separators 0x1C to 0x1F are not
  among them.
\<close>

definition is_int_space :: "char \<Rightarrow> bool" where
  "is_int_space c =
     (c \<in> set [CHR '' '', CHR 0x09, CHR 0x0A, CHR 0x0B, CHR 0x0C, CHR 0x0D, CHR 0x85, CHR 0xA0])"

definition is_digit :: "char \<Rightarrow> bool" where
  "is_digit c = (48 \<le> (of_char c :: nat) \<and> (of_char c :: nat) \<le> 57)"

definition digit_val :: "char \<Rightarrow> nat" where
  "digit_val c = (of_char c :: nat) - 48"

definition strip :: "string \<Rightarrow> string" where
  "strip s = rev (dropWhile is_int_space (rev (dropWhile is_int_space s)))"

text \<open>
  The digits of a decimal literal, where single underscores may separate digit groups
  (\<^verbatim>\<open>int('1_000')\<close> is 1000). The flag says whether the previous character was a digit.
\<close>

fun digits_value :: "bool \<Rightarrow> nat \<Rightarrow> string \<Rightarrow> nat option" where
  "digits_value prev acc [] = (if prev then Some acc else None)"
| "digits_value prev acc (c # cs) =
     (if is_digit c then digits_value True (10 * acc + digit_val c) cs
      else if c = CHR ''_'' \<and> prev then digits_value False acc cs
      else None)"

text \<open>
  \<^verbatim>\<open>int(s)\<close> on a string of code points below 256: the white space at both ends is
  dropped, one sign is allowed, and anything that is not a decimal literal raises
  \<open>ValueError\<close>. (An interpreter that limits the length of integer strings also refuses
  a literal of more than 4300 digits; the model has no such limit.)
\<close>

definition py_int :: "string \<Rightarrow> py_error + int" where
  "py_int s =
     (let t = strip s;
          neg = (case t of [] \<Rightarrow> False | c # _ \<Rightarrow> c = CHR ''-'');
          body = (case t of [] \<Rightarrow> [] | c # r \<Rightarrow> if c = CHR ''-'' \<or> c = CHR ''+'' then r else t)
      in case digits_value False 0 body of
           None \<Rightarrow> Inl ValueError
         | Some n \<Rightarrow> Inr (if neg then - int n else int n))"

text \<open>\<^verbatim>\<open>str(n)\<close> for an integer, as an f-string renders it.\<close>

fun str_nat :: "nat \<Rightarrow> string" where
  "str_nat n =
     (if n < 10 then [char_of (48 + n)]
      else str_nat (n div 10) @ [char_of (48 + n mod 10)])"

definition str_int :: "int \<Rightarrow> string" where
  "str_int i = (if i < 0 then CHR ''-'' # str_nat (nat (- i)) else str_nat (nat i))"

text \<open>
  \<^verbatim>\<open>xs[i]\<close>: a negative index counts from the end, an index outside
  \<open>[-len, len)\<close> raises \<open>IndexError\<close>. The result is the position and the element.
\<close>

definition py_index :: "'a list \<Rightarrow> int \<Rightarrow> py_error + (nat \<times> 'a)" where
  "py_index xs i =
     (let n = int (length xs);
          j = (if i < 0 then n + i else i)
      in if 0 \<le> j \<and> j < n then Inr (nat j, xs ! nat j) else Inl IndexError)"

text \<open>
  \<^verbatim>\<open>math.ceil(a / b)\<close> for integers and positive \<open>b\<close>, as the integer ceiling. The
  source divides in floats. For \<open>b = 30\<close> the float quotient has the integer ceiling for
  every \<open>a\<close> from 1 to \<open>30 * 2 ^ 49\<close>, so for every index up to \<open>10 ^ 16\<close>; from
  \<open>30 * 2 ^ 49 + 1\<close> on the quotient is rounded and the source's page can be one less
  than \<open>ceil_div a 30\<close>. A statement that pages an index beyond 30 by \<open>ceil_div\<close>
  therefore carries the bound \<open>10 ^ 16\<close> on the index.
\<close>

definition ceil_div :: "int \<Rightarrow> int \<Rightarrow> int" where
  "ceil_div a b = - ((- a) div b)"

section \<open>Parsed HTML\<close>

text \<open>
  A parsed document is a tree of tags and strings. A tag has a name, its attribute
  dictionary and its children; the document itself is the root tag.
\<close>

datatype node =
    Tag string "(string \<times> string) list" "node list"
  | NavigableString string

text \<open>All nodes below a node, in document order.\<close>

fun descendants :: "node \<Rightarrow> node list" where
  "descendants (Tag n a cs) = concat (map (\<lambda>c. c # descendants c) cs)"
| "descendants (NavigableString s) = []"

fun split_ws_aux :: "string \<Rightarrow> string \<Rightarrow> string list" where
  "split_ws_aux w [] = (if w = [] then [] else [rev w])"
| "split_ws_aux w (c # cs) =
     (if is_space c then (if w = [] then split_ws_aux [] cs else rev w # split_ws_aux [] cs)
      else split_ws_aux (c # w) cs)"

definition split_ws :: "string \<Rightarrow> string list" where
  "split_ws s = split_ws_aux [] s"

text \<open>
  A class filter matches a tag when it is one of the tag's classes or the tag's whole
  class list written with single spaces.
\<close>

fun has_class :: "string \<Rightarrow> node \<Rightarrow> bool" where
  "has_class cls (Tag n a cs) =
     (case map_of a ''class'' of
        None \<Rightarrow> False
      | Some v \<Rightarrow> cls \<in> set (split_ws v) \<or> cls = join '' '' (split_ws v))"
| "has_class cls (NavigableString s) = False"

fun matches :: "string \<Rightarrow> string option \<Rightarrow> node \<Rightarrow> bool" where
  "matches nm cls (Tag n a cs) =
     (n = nm \<and> (case cls of None \<Rightarrow> True | Some c \<Rightarrow> has_class c (Tag n a cs)))"
| "matches nm cls (NavigableString s) = False"

text \<open>\<^verbatim>\<open>tag.find_all(name, class_)\<close> and \<^verbatim>\<open>tag.find(name, class_)\<close>.\<close>

definition soup_find_all :: "node \<Rightarrow> string \<Rightarrow> string option \<Rightarrow> node list" where
  "soup_find_all t nm cls = filter (matches nm cls) (descendants t)"

definition soup_find :: "node \<Rightarrow> string \<Rightarrow> string option \<Rightarrow> node option" where
  "soup_find t nm cls = (case soup_find_all t nm cls of [] \<Rightarrow> None | x # _ \<Rightarrow> Some x)"

text \<open>\<^verbatim>\<open>tag.get(key)\<close> and \<^verbatim>\<open>tag.get(key, default)\<close>.\<close>

fun tag_get :: "node \<Rightarrow> string \<Rightarrow> string option" where
  "tag_get (Tag n a cs) k = map_of a k"
| "tag_get (NavigableString s) k = None"

definition tag_get_default :: "node \<Rightarrow> string \<Rightarrow> string \<Rightarrow> string" where
  "tag_get_default t k d = (case tag_get t k of None \<Rightarrow> d | Some v \<Rightarrow> v)"

text \<open>\<^verbatim>\<open>tag.get_text()\<close>: every string below the tag, concatenated.\<close>

fun get_text :: "node \<Rightarrow> string" where
  "get_text (Tag n a cs) = concat (map get_text cs)"
| "get_text (NavigableString s) = s"

section \<open>The outside world\<close>

text \<open>
  A date and time as \<^verbatim>\<open>datetime.datetime\<close> holds it; \<open>utcoffset\<close> is the offset of
  its time zone in minutes, \<open>None\<close> for a naive value.
\<close>

record datetime =
  year :: nat
  month :: nat
  day :: nat
  hour :: nat
  minute :: nat
  second :: nat
  utcoffset :: "int option"

record response =
  status_code :: int
  response_text :: node

text \<open>
  What the program reaches through its libraries and the network is a parameter of the
  model:
  \<^item> \<open>http_get url\<close> is \<^verbatim>\<open>httpx.Client(http2=False).get(url)\<close>, \<open>None\<close> when the
    client raises instead of returning a response; the body of the response is held as
    the tree that \<^verbatim>\<open>BeautifulSoup(response.text, 'html.parser')\<close> builds from it;
  \<^item> \<open>urlparse_path url\<close> is \<^verbatim>\<open>urlparse(url).path\<close>, \<open>None\<close> when \<open>urlparse\<close>
    raises its \<open>ValueError\<close>; the argument is \<open>None\<close> when a listing anchor has no
    \<^verbatim>\<open>href\<close>;
  \<^item> \<open>strptime s\<close> is \<^verbatim>\<open>datetime.datetime.strptime(s, '%B %d, %Y at %I:%M %p')\<close>,
    \<open>None\<close> when \<open>s\<close> does not match the format, where the call raises \<open>ValueError\<close>;
  \<^item> \<open>astimezone_utc d\<close> is \<^verbatim>\<open>d.astimezone(datetime.timezone.utc)\<close>, which reads a naive
    value in the local time zone of the machine; at the ends of the range of dates or of
    the platform's clock the call raises \<open>ValueError\<close>, \<open>OverflowError\<close> or
    \<open>OSError\<close>.
\<close>

datatype tz_error = TzValueError | TzOverflowError | TzOSError

record env =
  http_get :: "string \<Rightarrow> response option"
  urlparse_path :: "string option \<Rightarrow> string option"
  strptime :: "string \<Rightarrow> datetime option"
  astimezone_utc :: "datetime \<Rightarrow> tz_error + datetime"

text \<open>The library calls with their exceptions as values.\<close>

definition call_http_get :: "env \<Rightarrow> string \<Rightarrow> py_error + response" where
  "call_http_get env url = (case http_get env url of None \<Rightarrow> Inl TransportError | Some r \<Rightarrow> Inr r)"

definition call_urlparse_path :: "env \<Rightarrow> string option \<Rightarrow> py_error + string" where
  "call_urlparse_path env url = (case urlparse_path env url of None \<Rightarrow> Inl ValueError | Some p \<Rightarrow> Inr p)"

definition call_strptime :: "env \<Rightarrow> string \<Rightarrow> py_error + datetime" where
  "call_strptime env s = (case strptime env s of None \<Rightarrow> Inl ValueError | Some d \<Rightarrow> Inr d)"

definition call_astimezone_utc :: "env \<Rightarrow> datetime \<Rightarrow> py_error + datetime" where
  "call_astimezone_utc env d =
     (case astimezone_utc env d of
        Inl TzValueError \<Rightarrow> Inl ValueError
      | Inl TzOverflowError \<Rightarrow> Inl OverflowError
      | Inl TzOSError \<Rightarrow> Inl OSError
      | Inr u \<Rightarrow> Inr u)"

definition zero_pad :: "nat \<Rightarrow> string \<Rightarrow> string" where
  "zero_pad k s = replicate (k - length s) CHR ''0'' @ s"

text \<open>\<^verbatim>\<open>d.isoformat()\<close> for a value without microseconds.\<close>

definition isoformat :: "datetime \<Rightarrow> string" where
  "isoformat d =
     zero_pad 4 (str_nat (year d)) @ ''-'' @ zero_pad 2 (str_nat (month d)) @ ''-''
     @ zero_pad 2 (str_nat (day d)) @ ''T'' @ zero_pad 2 (str_nat (hour d)) @ '':''
     @ zero_pad 2 (str_nat (minute d)) @ '':'' @ zero_pad 2 (str_nat (second d))
     @ (case utcoffset d of
          None \<Rightarrow> []
        | Some off \<Rightarrow>
            (if off < 0 then ''-'' else ''+'')
            @ zero_pad 2 (str_nat (nat \<bar>off\<bar> div 60)) @ '':''
            @ zero_pad 2 (str_nat (nat \<bar>off\<bar> mod 60)))"

definition SCHEME :: string where
  "SCHEME = ''https://''"

definition BASE_URL :: string where
  "BASE_URL = ''wordpress.org''"

definition CONNECTION_OK :: int where
  "CONNECTION_OK = 200"

definition WORDPRESS_REVIEWS_PER_PAGE :: int where
  "WORDPRESS_REVIEWS_PER_PAGE = 30"

definition newline :: string where
  "newline = [CHR 0x0A]"

section \<open>wordpress\_review.py: one review\<close>

text \<open>
  The object's attributes. \<open>loaded\<close> is \<open>None\<close> while the attribute does not exist
  (only \<open>load\<close> creates it); \<open>text'\<close> is the attribute \<^verbatim>\<open>text\<close>. A reply in
  \<open>comments\<close> is a dictionary with up to three keys.
\<close>

record WordpressReview =
  path :: string
  loaded :: "bool option"
  title :: "string option"
  date :: "string option"
  tags :: "string list option"
  rating :: "int option"
  author :: "string option"
  text' :: "string option"
  replies :: "int option"
  participants :: "int option"
  comments :: "(string \<times> pyval) list list option"
  support :: "string option"
  support_comment :: "string option"

subsection \<open>Field extractors\<close>

definition find_title :: "node \<Rightarrow> string option" where
  "find_title soup =
     (case soup_find soup ''h1'' (Some ''page-title'') of
        None \<Rightarrow> None
      | Some object_title \<Rightarrow> Some (get_text object_title))"

text \<open>
  The \<^verbatim>\<open>try\<close> block shared by \<open>_find_date\<close> and \<open>_find_replies\<close>: a \<open>ValueError\<close> of
  \<open>strptime\<close> is caught and leaves \<open>None\<close>, any other exception goes on.
\<close>

definition try_strptime :: "env \<Rightarrow> string \<Rightarrow> py_error + datetime option" where
  "try_strptime env date_text =
     (case call_strptime env date_text of
        Inl e \<Rightarrow> (if e = ValueError then Inr None else Inl e)
      | Inr reply_date \<Rightarrow> Inr (Some reply_date))"

definition find_date :: "env \<Rightarrow> node \<Rightarrow> py_error + string option" where
  "find_date env soup =
     (case soup_find soup ''a'' (Some ''bbp-topic-permalink'') of
        None \<Rightarrow> Inr None
      | Some object_date \<Rightarrow>
          (let date_text = tag_get_default object_date ''title'' [] in
           case try_strptime env date_text of
             Inl e \<Rightarrow> Inl e
           | Inr None \<Rightarrow> Inr None
           | Inr (Some reply_date) \<Rightarrow>
               (case call_astimezone_utc env reply_date of
                  Inl e \<Rightarrow> Inl e
                | Inr utc_date \<Rightarrow> Inr (Some (isoformat utc_date)))))"

definition find_tags :: "node \<Rightarrow> string list option" where
  "find_tags soup =
     (case soup_find soup ''ul'' (Some ''topic-tags'') of
        None \<Rightarrow> None
      | Some object_tags \<Rightarrow> Some (map get_text (soup_find_all object_tags ''a'' None)))"

text \<open>
  \<^verbatim>\<open>int(int(rating_string[0]))\<close>: subscripting \<open>None\<close> (no \<^verbatim>\<open>title\<close> attribute)
  raises \<open>TypeError\<close>, subscripting the empty string \<open>IndexError\<close>.
\<close>

definition find_rating :: "node \<Rightarrow> py_error + int option" where
  "find_rating soup =
     (case soup_find soup ''div'' (Some ''wporg-ratings'') of
        None \<Rightarrow> Inr None
      | Some object_rating \<Rightarrow>
          (case tag_get object_rating ''title'' of
             None \<Rightarrow> Inl TypeError
           | Some rating_string \<Rightarrow>
               (case rating_string of
                  [] \<Rightarrow> Inl IndexError
                | c # _ \<Rightarrow>
                    (case py_int [c] of
                       Inl e \<Rightarrow> Inl e
                     | Inr n \<Rightarrow> Inr (Some n)))))"

definition find_author :: "node \<Rightarrow> string option" where
  "find_author soup =
     (case soup_find soup ''span'' (Some ''bbp-author-name'') of
        Some object_author \<Rightarrow> Some (get_text object_author)
      | None \<Rightarrow> None)"

text \<open>
  \<^verbatim>\<open>soup.find(...).find_all('p')\<close>: when \<open>find\<close> gives \<open>None\<close> the method call on it
  raises \<open>AttributeError\<close>.
\<close>

definition find_text :: "node \<Rightarrow> py_error + string option" where
  "find_text soup =
     (case soup_find soup ''div'' (Some ''bbp-topic-content'') of
        None \<Rightarrow> Inl AttributeError
      | Some block \<Rightarrow>
          (let object_p = soup_find_all block ''p'' None in
           if object_p = [] then Inr None
           else Inr (Some (join newline (map get_text object_p)))))"

definition find_replies_num :: "node \<Rightarrow> py_error + int option" where
  "find_replies_num soup =
     (case soup_find soup ''li'' (Some ''reply-count'') of
        None \<Rightarrow> Inr None
      | Some object_replies \<Rightarrow>
          (case py_int (partition_head (get_text object_replies)) of
             Inl e \<Rightarrow> Inl e
           | Inr n \<Rightarrow> Inr (Some n)))"

definition find_participants_num :: "node \<Rightarrow> py_error + int option" where
  "find_participants_num soup =
     (case soup_find soup ''li'' (Some ''voice-count'') of
        None \<Rightarrow> Inr None
      | Some object_replies \<Rightarrow>
          (case py_int (partition_head (get_text object_replies)) of
             Inl e \<Rightarrow> Inl e
           | Inr n \<Rightarrow> Inr (Some n)))"

text \<open>The body of the loop of \<open>_find_replies\<close>: the dictionary built for one reply block.\<close>

definition reply_comment :: "env \<Rightarrow> node \<Rightarrow> py_error + (string \<times> pyval) list" where
  "reply_comment env reply =
     (let comment = [];
          comment =
            (case soup_find reply ''span'' (Some ''bbp-author-name'') of
               None \<Rightarrow> comment
             | Some object_reply_author \<Rightarrow>
                 dict_set comment ''author'' (PStr (get_text object_reply_author)));
          comment =
            (case soup_find reply ''div'' (Some ''bbp-reply-content'') of
               None \<Rightarrow> comment
             | Some object_reply_content \<Rightarrow>
                 dict_set comment ''comment''
                   (PStr (join newline (map get_text (soup_find_all object_reply_content ''p'' None)))))
      in case soup_find reply ''p'' (Some ''bbp-reply-post-date'') of
           None \<Rightarrow> Inr comment
         | Some object_reply_date \<Rightarrow>
             (case soup_find object_reply_date ''a'' None of
                None \<Rightarrow> Inr comment
              | Some date_object \<Rightarrow>
                  (case try_strptime env (tag_get_default date_object ''title'' []) of
                     Inl e \<Rightarrow> Inl e
                   | Inr reply_date \<Rightarrow>
                       Inr (dict_set comment ''date''
                              (case reply_date of
                                 None \<Rightarrow> PNone
                               | Some d \<Rightarrow> PStr (isoformat d))))))"

fun replies_loop ::
  "env \<Rightarrow> node list \<Rightarrow> (string \<times> pyval) list list \<Rightarrow> py_error + (string \<times> pyval) list list" where
  "replies_loop env [] cs = Inr cs"
| "replies_loop env (reply # rest) cs =
     (case reply_comment env reply of
        Inl e \<Rightarrow> Inl e
      | Inr comment \<Rightarrow> replies_loop env rest (cs @ [comment]))"

definition find_replies :: "env \<Rightarrow> node \<Rightarrow> py_error + (string \<times> pyval) list list option" where
  "find_replies env soup =
     (let replies = soup_find_all soup ''div'' (Some ''reply'');
          comments = []
      in if replies = [] then Inr None
         else (case replies_loop env replies comments of
                 Inl e \<Rightarrow> Inl e
               | Inr cs \<Rightarrow> Inr (Some cs)))"

definition find_support :: "node \<Rightarrow> string option" where
  "find_support soup =
     (case soup_find soup ''div'' (Some ''by-plugin-support-rep'') of
        None \<Rightarrow> None
      | Some object_support_comment \<Rightarrow>
          (case soup_find object_support_comment ''span'' (Some ''bbp-author-name'') of
             None \<Rightarrow> None
           | Some object_support \<Rightarrow> Some (get_text object_support)))"

definition find_support_comment :: "node \<Rightarrow> string option" where
  "find_support_comment soup =
     (case soup_find soup ''div'' (Some ''by-plugin-support-rep'') of
        None \<Rightarrow> None
      | Some object_support_comment \<Rightarrow>
          (case soup_find object_support_comment ''div'' (Some ''bbp-reply-content'') of
             None \<Rightarrow> None
           | Some object_support_comment_block \<Rightarrow>
               Some (join newline
                       (map get_text (soup_find_all object_support_comment_block ''p'' None)))))"

subsection \<open>The review object\<close>

text \<open>
  \<open>_parse\<close> assigns the attributes one after the other, so an extractor that raises
  leaves the earlier assignments in place: the result is the exception, if any, and the
  object as it then is.
\<close>

definition review_parse :: "env \<Rightarrow> WordpressReview \<Rightarrow> node \<Rightarrow> py_error option \<times> WordpressReview" where
  "review_parse env self soup =
     (let self = self\<lparr>title := find_title soup\<rparr> in
      case find_date env soup of
        Inl e \<Rightarrow> (Some e, self)
      | Inr d \<Rightarrow>
     (let self = self\<lparr>date := d\<rparr>;
          self = self\<lparr>tags := find_tags soup\<rparr> in
      case find_rating soup of
        Inl e \<Rightarrow> (Some e, self)
      | Inr x \<Rightarrow>
     (let self = self\<lparr>rating := x\<rparr>;
          self = self\<lparr>author := find_author soup\<rparr> in
      case find_text soup of
        Inl e \<Rightarrow> (Some e, self)
      | Inr t \<Rightarrow>
     (let self = self\<lparr>text' := t\<rparr> in
      case find_replies_num soup of
        Inl e \<Rightarrow> (Some e, self)
      | Inr n \<Rightarrow>
     (let self = self\<lparr>replies := n\<rparr> in
      case find_participants_num soup of
        Inl e \<Rightarrow> (Some e, self)
      | Inr m \<Rightarrow>
     (let self = self\<lparr>participants := m\<rparr> in
      case find_replies env soup of
        Inl e \<Rightarrow> (Some e, self)
      | Inr cs \<Rightarrow>
     (let self = self\<lparr>comments := cs\<rparr>;
          self = self\<lparr>support := find_support soup\<rparr>;
          self = self\<lparr>support_comment := find_support_comment soup\<rparr>
      in (None, self))))))))"

definition review_load :: "env \<Rightarrow> WordpressReview \<Rightarrow> py_error option \<times> WordpressReview" where
  "review_load env self =
     (let url = SCHEME @ BASE_URL @ path self in
      case call_http_get env url of
        Inl e \<Rightarrow> (Some e, self)
      | Inr response \<Rightarrow>
          if status_code response \<noteq> CONNECTION_OK
          then (Some (ConnectionError (status_code response)), self)
          else (case review_parse env self (response_text response) of
                  (Some e, self) \<Rightarrow> (Some e, self)
                | (None, self) \<Rightarrow> (None, self\<lparr>loaded := Some True\<rparr>)))"

text \<open>
  \<open>__init__\<close>: the path first, then the load when \<open>autoload\<close> is set, then the
  assignments of lines 34 to 44. Until those run the object has no attribute but
  \<open>path\<close>; the model holds \<open>None\<close> in their place, which nothing reads. An
  exception leaves no object.
\<close>

definition review_init :: "env \<Rightarrow> string option \<Rightarrow> bool \<Rightarrow> py_error + WordpressReview" where
  "review_init env url autoload =
     (case call_urlparse_path env url of
        Inl e \<Rightarrow> Inl e
      | Inr p \<Rightarrow>
          (let self = \<lparr>path = p, loaded = None, title = None, date = None, tags = None,
                       rating = None, author = None, text' = None, replies = None,
                       participants = None, comments = None, support = None,
                       support_comment = None\<rparr>
           in case (if autoload then review_load env self else (None, self)) of
                (Some e, self) \<Rightarrow> Inl e
              | (None, self) \<Rightarrow>
                  Inr (self\<lparr>title := None, date := None, tags := Some [], rating := None,
                            author := None, text' := None, replies := None,
                            participants := None, comments := Some [], support := None,
                            support_comment := None\<rparr>)))"

text \<open>The object that \<^verbatim>\<open>WordpressReview(url)\<close> builds for a link with path \<open>p\<close>.\<close>

definition unloaded_review :: "string \<Rightarrow> WordpressReview" where
  "unloaded_review p =
     \<lparr>path = p, loaded = None, title = None, date = None, tags = Some [], rating = None,
      author = None, text' = None, replies = None, participants = None, comments = Some [],
      support = None, support_comment = None\<rparr>"

definition to_dict :: "WordpressReview \<Rightarrow> (string \<times> pyval) list" where
  "to_dict self =
     [(''path'', PStr (path self)),
      (''title'', opt_val PStr (title self)),
      (''date'', opt_val PStr (date self)),
      (''tags'', opt_val (\<lambda>ts. PList (map PStr ts)) (tags self)),
      (''rating'', opt_val PInt (rating self)),
      (''author'', opt_val PStr (author self)),
      (''text'', opt_val PStr (text' self)),
      (''replies'', opt_val PInt (replies self)),
      (''participants'', opt_val PInt (participants self)),
      (''comments'', opt_val (\<lambda>cs. PList (map PDict cs)) (comments self)),
      (''support'', opt_val PStr (support self)),
      (''support_comment'', opt_val PStr (support_comment self))]"

definition tag :: "WordpressReview \<Rightarrow> int \<Rightarrow> py_error + string option" where
  "tag self n =
     (case tags self of
        None \<Rightarrow> Inr None
      | Some ts \<Rightarrow>
          if ts = [] then Inr None
          else if n > int (length ts) then Inr None
          else (case py_index ts (n - 1) of
                  Inl e \<Rightarrow> Inl e
                | Inr (_, t) \<Rightarrow> Inr (Some t)))"

section \<open>wordpress\_reviews\_list.py: the cursor over one plugin's reviews\<close>

text \<open>
  \<open>page_html\<close> is the cache of listing pages, each the list of its review objects.
  \<open>more'\<close> and \<open>list_loaded\<close> (the attributes \<^verbatim>\<open>more\<close> and \<^verbatim>\<open>loaded\<close>) are declared without a
  value and exist only once a page has been parsed. The attribute \<^verbatim>\<open>reviews\<close> only
  hands the parsed list from \<open>_parse\<close> to \<open>load\<close>, which returns it at once: the model
  passes the list as the result of \<open>list_parse\<close>.
\<close>

record WordpressReviewsList =
  plugin :: string
  review_no :: int
  page_html :: "int \<rightharpoonup> WordpressReview list"
  more' :: "bool option"
  list_loaded :: "bool option"

definition list_init :: "string \<Rightarrow> WordpressReviewsList" where
  "list_init p = \<lparr>plugin = p, review_no = 1, page_html = Map.empty, more' = None,
                   list_loaded = None\<rparr>"

definition link :: "WordpressReviewsList \<Rightarrow> int \<Rightarrow> string" where
  "link self page =
     (if page = 1 then ''/support/plugin/'' @ plugin self @ ''/reviews/''
      else ''/support/plugin/'' @ plugin self @ ''/reviews/page/'' @ str_int page @ ''/'')"

text \<open>
  \<^verbatim>\<open>[topic.get('href') for topic in review_objects]\<close>: where a listing item has no
  permalink anchor the entry of \<^verbatim>\<open>review_objects\<close> is \<open>None\<close> and the call on it
  raises \<open>AttributeError\<close>.
\<close>

fun review_urls :: "node option list \<Rightarrow> py_error + string option list" where
  "review_urls [] = Inr []"
| "review_urls (None # ts) = Inl AttributeError"
| "review_urls (Some topic # ts) =
     (case review_urls ts of
        Inl e \<Rightarrow> Inl e
      | Inr urls \<Rightarrow> Inr (tag_get topic ''href'' # urls))"

text \<open>\<^verbatim>\<open>[WordpressReview(url) for url in review_urls]\<close>\<close>

fun new_reviews :: "env \<Rightarrow> string option list \<Rightarrow> py_error + WordpressReview list" where
  "new_reviews env [] = Inr []"
| "new_reviews env (url # urls) =
     (case review_init env url False of
        Inl e \<Rightarrow> Inl e
      | Inr r \<Rightarrow>
          (case new_reviews env urls of
             Inl e \<Rightarrow> Inl e
           | Inr rs \<Rightarrow> Inr (r # rs)))"

definition list_parse ::
  "env \<Rightarrow> WordpressReviewsList \<Rightarrow> node \<Rightarrow> (py_error + WordpressReview list) \<times> WordpressReviewsList" where
  "list_parse env self soup =
     (let reviews = soup_find_all soup ''ul'' (Some ''topic'');
          review_objects =
            map (\<lambda>topic. soup_find topic ''a'' (Some ''bbp-topic-permalink'')) reviews
      in case review_urls review_objects of
           Inl e \<Rightarrow> (Inl e, self)
         | Inr urls \<Rightarrow>
             (case new_reviews env urls of
                Inl e \<Rightarrow> (Inl e, self)
              | Inr rs \<Rightarrow>
                  (Inr rs,
                   self\<lparr>more' := Some (soup_find soup ''a'' (Some ''next page-numbers'') \<noteq> None)\<rparr>)))"

definition list_load ::
  "env \<Rightarrow> WordpressReviewsList \<Rightarrow> int \<Rightarrow> (py_error + WordpressReview list) \<times> WordpressReviewsList" where
  "list_load env self page =
     (let url = SCHEME @ BASE_URL @ link self page in
      case call_http_get env url of
        Inl e \<Rightarrow> (Inl e, self)
      | Inr response \<Rightarrow>
          if status_code response \<noteq> CONNECTION_OK
          then (Inl (ConnectionError (status_code response)), self)
          else (case list_parse env self (response_text response) of
                  (Inl e, self) \<Rightarrow> (Inl e, self)
                | (Inr rs, self) \<Rightarrow> (Inr rs, self\<lparr>list_loaded := Some True\<rparr>)))"

text \<open>
  Lines 106 to 108 of \<open>_wp_review\<close>: the listing page from the cache, loaded and cached
  first when it is not there.
\<close>

definition cached_page ::
  "env \<Rightarrow> WordpressReviewsList \<Rightarrow> int \<Rightarrow> (py_error + WordpressReview list) \<times> WordpressReviewsList" where
  "cached_page env self page =
     (case page_html self page of
        Some pg \<Rightarrow> (Inr pg, self)
      | None \<Rightarrow>
          (case list_load env self page of
             (Inl e, self) \<Rightarrow> (Inl e, self)
           | (Inr pg, self) \<Rightarrow> (Inr pg, self\<lparr>page_html := (page_html self)(page \<mapsto> pg)\<rparr>)))"

text \<open>
  \<open>_wp_review\<close>. The review is loaded in place, so the cached page holds the loaded
  object afterwards, also when its load stopped half way.
\<close>

definition wp_review ::
  "env \<Rightarrow> WordpressReviewsList \<Rightarrow> int \<Rightarrow> (py_error + WordpressReview) \<times> WordpressReviewsList" where
  "wp_review env self n =
     (let page = ceil_div n WORDPRESS_REVIEWS_PER_PAGE in
      case cached_page env self page of
        (Inl e, self) \<Rightarrow> (Inl e, self)
      | (Inr pg, self) \<Rightarrow>
          (let k = n - page * WORDPRESS_REVIEWS_PER_PAGE;
               k = (if int (length pg) < WORDPRESS_REVIEWS_PER_PAGE
                    then k + (WORDPRESS_REVIEWS_PER_PAGE - int (length pg)) else k)
           in if k > 0 then (Inl StopIteration, self)
              else (case py_index pg (k - 1) of
                      Inl e \<Rightarrow> (Inl e, self)
                    | Inr (i, review) \<Rightarrow>
                        (case review_load env review of
                           (out, review) \<Rightarrow>
                             (case out of Some e \<Rightarrow> Inl e | None \<Rightarrow> Inr review,
                              self\<lparr>page_html := (page_html self)(page \<mapsto> pg[i := review])\<rparr>)))))"

text \<open>\<open>__next__\<close>\<close>

definition list_next ::
  "env \<Rightarrow> WordpressReviewsList \<Rightarrow> (py_error + WordpressReview) \<times> WordpressReviewsList" where
  "list_next env self =
     (let n = review_no self;
          self = self\<lparr>review_no := review_no self + 1\<rparr>
      in wp_review env self n)"

text \<open>
  A sequence of \<^verbatim>\<open>next()\<close> calls on one cursor: what each call returns or raises, in
  order, and the cursor afterwards.
\<close>

fun next_calls ::
  "env \<Rightarrow> nat \<Rightarrow> WordpressReviewsList \<Rightarrow> (py_error + WordpressReview) list \<times> WordpressReviewsList" where
  "next_calls env 0 self = ([], self)"
| "next_calls env (Suc n) self =
     (case list_next env self of
        (r, self) \<Rightarrow> (case next_calls env n self of (rs, self) \<Rightarrow> (r # rs, self)))"

section \<open>wordpress\_reviews.py: all requested plugins\<close>

datatype plugins_arg = OnePlugin string | PluginList "string list"

record WordpressReviews =
  plugins :: "string list"
  number :: int
  reviews_lists :: "string \<rightharpoonup> WordpressReviewsList"

definition reviews_init :: "plugins_arg \<Rightarrow> int \<Rightarrow> WordpressReviews" where
  "reviews_init arg n =
     (let ps = (case arg of OnePlugin p \<Rightarrow> [p] | PluginList ps \<Rightarrow> ps)
      in \<lparr>plugins = ps, number = n,
          reviews_lists = fold (\<lambda>p m. m(p \<mapsto> list_init p)) ps Map.empty\<rparr>)"

text \<open>
  The generator \<open>reviews\<close> is run to its end: the result is the rows it yields in
  order, the exception that ends it (\<open>None\<close> when it returns) and the cursors as they
  are left.

  The inner loop \<^verbatim>\<open>for _ in range(0, self.number)\<close> for one plugin, with the exception
  that leaves it.
\<close>

fun quota_loop ::
  "env \<Rightarrow> string \<Rightarrow> nat \<Rightarrow> (string \<rightharpoonup> WordpressReviewsList) \<Rightarrow>
   (string \<times> pyval) list list \<times> py_error option \<times> (string \<rightharpoonup> WordpressReviewsList)" where
  "quota_loop env p 0 cursors = ([], None, cursors)"
| "quota_loop env p (Suc n) cursors =
     (case cursors p of
        None \<Rightarrow> ([], Some KeyError, cursors)
      | Some c \<Rightarrow>
          (case list_next env c of
             (Inl e, c) \<Rightarrow> ([], Some e, cursors(p \<mapsto> c))
           | (Inr review, c) \<Rightarrow>
               (let row = dict_set (to_dict review) ''plugin'' (PStr p)
                in case quota_loop env p n (cursors(p \<mapsto> c)) of
                     (rows, out, cursors) \<Rightarrow> (row # rows, out, cursors))))"

text \<open>
  The outer loop over the plugins. The handler \<^verbatim>\<open>except StopIteration: break\<close> stands
  outside the inner loop, so its \<^verbatim>\<open>break\<close> leaves the loop over the plugins.
\<close>

fun plugins_loop ::
  "env \<Rightarrow> int \<Rightarrow> string list \<Rightarrow> (string \<rightharpoonup> WordpressReviewsList) \<Rightarrow>
   (string \<times> pyval) list list \<times> py_error option \<times> (string \<rightharpoonup> WordpressReviewsList)" where
  "plugins_loop env n [] cursors = ([], None, cursors)"
| "plugins_loop env n (p # ps) cursors =
     (case quota_loop env p (nat n) cursors of
        (rows, out, cursors) \<Rightarrow>
          (case out of
             None \<Rightarrow>
               (case plugins_loop env n ps cursors of
                  (rows', out', cursors') \<Rightarrow> (rows @ rows', out', cursors'))
           | Some e \<Rightarrow>
               if e = StopIteration then (rows, None, cursors)
               else (rows, Some e, cursors)))"

definition reviews ::
  "env \<Rightarrow> WordpressReviews \<Rightarrow> (string \<times> pyval) list list \<times> py_error option \<times> WordpressReviews" where
  "reviews env self =
     (case plugins_loop env (number self) (plugins self) (reviews_lists self) of
        (rows, out, cursors) \<Rightarrow> (rows, out, self\<lparr>reviews_lists := cursors\<rparr>))"

section \<open>A small site\<close>

text \<open>
  A concrete world for worked examples. Its \<open>strptime\<close> follows the standard library
  for the format \<^verbatim>\<open>%B %d, %Y at %I:%M %p\<close> in the C locale on ASCII text: the format
  is a regular expression matched from the left without regard to case, a blank in the
  format stands for one or more white-space characters, the first match in the priority
  order of the alternatives is taken, and unconverted text after it, a year 0 or a day
  the month does not have is a \<open>ValueError\<close>. Each parser returns its matches in that
  order, every one with the text left over.
\<close>

definition lower :: "char \<Rightarrow> char" where
  "lower c = (if 65 \<le> (of_char c :: nat) \<and> (of_char c :: nat) \<le> 90 then char_of ((of_char c :: nat) + 32) else c)"

fun p_word :: "string \<Rightarrow> string \<Rightarrow> string list" where
  "p_word [] s = [s]"
| "p_word (w # ws) [] = []"
| "p_word (w # ws) (c # cs) = (if lower c = lower w then p_word ws cs else [])"

fun p_spaces :: "string \<Rightarrow> string list" where
  "p_spaces [] = []"
| "p_spaces (c # cs) = (if is_space c then p_spaces cs @ [cs] else [])"

definition two_digits :: "(nat \<Rightarrow> nat \<Rightarrow> bool) \<Rightarrow> string \<Rightarrow> (nat \<times> string) list" where
  "two_digits ok s =
     (case s of
        a # b # r \<Rightarrow>
          if is_digit a \<and> is_digit b \<and> ok (digit_val a) (digit_val b)
          then [(10 * digit_val a + digit_val b, r)] else []
      | _ \<Rightarrow> [])"

definition one_digit :: "(nat \<Rightarrow> bool) \<Rightarrow> string \<Rightarrow> (nat \<times> string) list" where
  "one_digit ok s =
     (case s of
        a # r \<Rightarrow> if is_digit a \<and> ok (digit_val a) then [(digit_val a, r)] else []
      | _ \<Rightarrow> [])"

definition month_names :: "string list" where
  "month_names = [''january'', ''february'', ''march'', ''april'', ''may'', ''june'', ''july'',
                  ''august'', ''september'', ''october'', ''november'', ''december'']"

definition p_month :: "string \<Rightarrow> (nat \<times> string) list" where
  "p_month s = concat (map (\<lambda>(i, w). map (\<lambda>r. (Suc i, r)) (p_word w s)) (enumerate 0 month_names))"

definition p_day :: "string \<Rightarrow> (nat \<times> string) list" where
  "p_day s =
     two_digits (\<lambda>a b. a = 3 \<and> b \<le> 1) s @ two_digits (\<lambda>a b. 1 \<le> a \<and> a \<le> 2) s
     @ two_digits (\<lambda>a b. a = 0 \<and> 1 \<le> b) s @ one_digit (\<lambda>a. 1 \<le> a) s
     @ (case s of c # r \<Rightarrow> if c = CHR '' '' then one_digit (\<lambda>a. 1 \<le> a) r else [] | [] \<Rightarrow> [])"

definition p_year :: "string \<Rightarrow> (nat \<times> string) list" where
  "p_year s =
     (case s of
        a # b # r \<Rightarrow>
          concat (map (\<lambda>(hi, r). map (\<lambda>(lo, r). (100 * hi + lo, r)) (two_digits (\<lambda>a b. True) r))
                      (two_digits (\<lambda>a b. True) s))
      | _ \<Rightarrow> [])"

definition p_hour :: "string \<Rightarrow> (nat \<times> string) list" where
  "p_hour s =
     two_digits (\<lambda>a b. a = 1 \<and> b \<le> 2) s @ two_digits (\<lambda>a b. a = 0 \<and> 1 \<le> b) s
     @ one_digit (\<lambda>a. 1 \<le> a) s"

definition p_minute :: "string \<Rightarrow> (nat \<times> string) list" where
  "p_minute s = two_digits (\<lambda>a b. a \<le> 5) s @ one_digit (\<lambda>a. True) s"

definition p_ampm :: "string \<Rightarrow> (bool \<times> string) list" where
  "p_ampm s = map (Pair False) (p_word ''am'' s) @ map (Pair True) (p_word ''pm'' s)"

definition match_format :: "string \<Rightarrow> ((nat \<times> nat \<times> nat \<times> nat \<times> nat \<times> bool) \<times> string) list" where
  "match_format s = do {
     (mo, s) \<leftarrow> p_month s;
     s \<leftarrow> p_spaces s;
     (d, s) \<leftarrow> p_day s;
     s \<leftarrow> p_word '','' s;
     s \<leftarrow> p_spaces s;
     (y, s) \<leftarrow> p_year s;
     s \<leftarrow> p_spaces s;
     s \<leftarrow> p_word ''at'' s;
     s \<leftarrow> p_spaces s;
     (h, s) \<leftarrow> p_hour s;
     s \<leftarrow> p_word '':'' s;
     (mi, s) \<leftarrow> p_minute s;
     s \<leftarrow> p_spaces s;
     (pm, s) \<leftarrow> p_ampm s;
     [((y, mo, d, h, mi, pm), s)]
   }"

definition is_leap :: "nat \<Rightarrow> bool" where
  "is_leap y = (y mod 4 = 0 \<and> (y mod 100 \<noteq> 0 \<or> y mod 400 = 0))"

definition days_in_month :: "nat \<Rightarrow> nat \<Rightarrow> nat" where
  "days_in_month y m =
     (if m = 2 then (if is_leap y then 29 else 28)
      else if m \<in> set [4, 6, 9, 11] then 30 else 31)"

definition c_strptime :: "string \<Rightarrow> datetime option" where
  "c_strptime s =
     (case match_format s of
        [] \<Rightarrow> None
      | ((y, mo, d, h, mi, pm), rest) # _ \<Rightarrow>
          if rest \<noteq> [] \<or> y < 1 \<or> days_in_month y mo < d then None
          else Some \<lparr>year = y, month = mo, day = d,
                     hour = (if pm then (if h = 12 then 12 else h + 12) else (if h = 12 then 0 else h)),
                     minute = mi, second = 0, utcoffset = None\<rparr>)"


text \<open>
  A machine whose local time zone is UTC, for the naive values that \<open>strptime\<close> gives:
  the same date and time with the offset 0. On the first day of the year 1 the library
  looks a day back, into the year 0, and raises \<open>ValueError\<close>.
\<close>

definition demo_astimezone_utc :: "datetime \<Rightarrow> tz_error + datetime" where
  "demo_astimezone_utc d =
     (if year d = 1 \<and> month d = 1 \<and> day d = 1 then Inl TzValueError
      else Inr (d\<lparr>utcoffset := Some 0\<rparr>))"

text \<open>
  \<^verbatim>\<open>urlparse(url).path\<close> for a link whose host, if any, is a plain ASCII name: white
  space and control characters at the front and every tab and line break are dropped, a
  scheme and a host after \<^verbatim>\<open>//\<close> are split off, then the fragment, the query and, for
  the schemes that have them, the parameters of the last segment. A host with one bracket
  only is a \<open>ValueError\<close>. For a missing link the library's path is the empty byte
  string, which is held as the empty string.
\<close>

definition scheme_chars :: string where
  "scheme_chars = ''abcdefghijklmnopqrstuvwxyzABCDEFGHIJKLMNOPQRSTUVWXYZ0123456789+-.''"

definition uses_params :: "string list" where
  "uses_params = [[], ''ftp'', ''hdl'', ''prospero'', ''http'', ''imap'', ''https'', ''shttp'',
                  ''rtsp'', ''rtsps'', ''rtspu'', ''sip'', ''sips'', ''mms'', ''sftp'', ''tel'']"

text \<open>The scheme, in lower case, and the rest of the link.\<close>

definition split_scheme :: "string \<Rightarrow> string \<times> string" where
  "split_scheme u =
     (let sch = takeWhile (\<lambda>c. c \<noteq> CHR '':'') u
      in if sch \<noteq> [] \<and> length sch < length u
            \<and> lower (hd sch) \<in> set ''abcdefghijklmnopqrstuvwxyz''
            \<and> list_all (\<lambda>c. c \<in> set scheme_chars) sch
         then (map lower sch, drop (Suc (length sch)) u)
         else ([], u))"

text \<open>The path without the parameters of its last segment.\<close>

definition split_params :: "string \<Rightarrow> string" where
  "split_params u =
     (let last_segment = rev (takeWhile (\<lambda>c. c \<noteq> CHR ''/'') (rev u));
          before = take (length u - length last_segment) u
      in before @ takeWhile (\<lambda>c. c \<noteq> CHR '';'') last_segment)"

definition demo_urlparse_path :: "string option \<Rightarrow> string option" where
  "demo_urlparse_path url =
     (case url of
        None \<Rightarrow> Some []
      | Some u \<Rightarrow>
          (let u = dropWhile (\<lambda>c. (of_char c :: nat) \<le> 32) u;
               u = filter (\<lambda>c. c \<notin> set [CHR 0x09, CHR 0x0A, CHR 0x0D]) u;
               (sch, u) = split_scheme u;
               netloc = (if take 2 u = ''//''
                         then takeWhile (\<lambda>c. c \<notin> set ''/?#'') (drop 2 u) else []);
               u = (if take 2 u = ''//'' then drop (2 + length netloc) u else u);
               u = takeWhile (\<lambda>c. c \<noteq> CHR ''#'') u;
               u = takeWhile (\<lambda>c. c \<noteq> CHR ''?'') u
           in if (CHR ''['' \<in> set netloc) \<noteq> (CHR '']'' \<in> set netloc) then None
              else if sch \<in> set uses_params then Some (split_params u)
              else Some u))"

text \<open>
  The pages of the site: a listing page holds one item per review and the link to the
  next page when there is one; every review has the same detail page under its own
  heading, with one reply of the support representative whose date does not parse. The
  plugin \<open>none\<close> has no review, \<open>solo\<close> one, \<open>duo\<close> two and \<open>big\<close>
  thirty-two, on two pages. Every other address answers 404.
\<close>

definition topic_item :: "string \<Rightarrow> node" where
  "topic_item href =
     Tag ''ul'' [(''class'', ''topic type-topic'')]
       [Tag ''li'' [(''class'', ''bbp-topic-title'')]
          [Tag ''a'' [(''class'', ''bbp-topic-permalink''), (''href'', href)]
             [NavigableString ''A review'']]]"

definition listing_page :: "string list \<Rightarrow> bool \<Rightarrow> node" where
  "listing_page hrefs has_next =
     Tag ''[document]'' []
       (map topic_item hrefs
        @ (if has_next then [Tag ''a'' [(''class'', ''next page-numbers'')] [NavigableString ''Next'']]
           else []))"

definition topic_url :: "string \<Rightarrow> nat \<Rightarrow> string" where
  "topic_url p i = ''https://wordpress.org/support/topic/'' @ p @ ''-'' @ str_nat i @ ''/''"

definition reply_block :: node where
  "reply_block =
     Tag ''div'' [(''class'', ''reply by-plugin-support-rep'')]
       [Tag ''span'' [(''class'', ''bbp-author-name'')] [NavigableString ''bob''],
        Tag ''p'' [(''class'', ''bbp-reply-post-date'')]
          [Tag ''a'' [(''title'', ''2 weeks ago'')] []],
        Tag ''div'' [(''class'', ''bbp-reply-content'')]
          [Tag ''p'' [] [NavigableString ''Glad to hear it.'']]]"

definition detail_page :: "string \<Rightarrow> node" where
  "detail_page heading =
     Tag ''[document]'' []
       [Tag ''h1'' [(''class'', ''page-title'')] [NavigableString heading],
        Tag ''a'' [(''class'', ''bbp-topic-permalink''), (''title'', ''April 3, 2024 at 10:15 am'')] [],
        Tag ''ul'' [(''class'', ''topic-tags'')]
          [Tag ''li'' [] [Tag ''a'' [] [NavigableString ''fast'']]],
        Tag ''div'' [(''class'', ''wporg-ratings''), (''title'', ''5 out of 5 stars'')] [],
        Tag ''span'' [(''class'', ''bbp-author-name'')] [NavigableString ''alice''],
        Tag ''div'' [(''class'', ''bbp-topic-content'')]
          [Tag ''p'' [] [NavigableString ''Works well.''],
           Tag ''p'' [] [NavigableString ''Thanks!'']],
        Tag ''li'' [(''class'', ''reply-count'')] [NavigableString ''1 reply''],
        Tag ''li'' [(''class'', ''voice-count'')] [NavigableString ''2 participants''],
        reply_block]"

definition demo_listings :: "(string \<times> node) list" where
  "demo_listings =
     [(''https://wordpress.org/support/plugin/none/reviews/'', listing_page [] False),
      (''https://wordpress.org/support/plugin/solo/reviews/'',
         listing_page [topic_url ''solo'' 1] False),
      (''https://wordpress.org/support/plugin/duo/reviews/'',
         listing_page (map (topic_url ''duo'') [1..<3]) False),
      (''https://wordpress.org/support/plugin/big/reviews/'',
         listing_page (map (topic_url ''big'') [1..<31]) True),
      (''https://wordpress.org/support/plugin/big/reviews/page/2/'',
         listing_page (map (topic_url ''big'') [31..<33]) False)]"

definition demo_http_get :: "string \<Rightarrow> response option" where
  "demo_http_get url =
     (case map_of demo_listings url of
        Some doc \<Rightarrow> Some \<lparr>status_code = 200, response_text = doc\<rparr>
      | None \<Rightarrow>
          if take 36 url = ''https://wordpress.org/support/topic/''
          then Some \<lparr>status_code = 200, response_text = detail_page (drop 36 url)\<rparr>
          else Some \<lparr>status_code = 404, response_text = Tag ''[document]'' [] []\<rparr>)"

definition demo_env :: env where
  "demo_env = \<lparr>http_get = demo_http_get, urlparse_path = demo_urlparse_path,
               strptime = c_strptime, astimezone_utc = demo_astimezone_utc\<rparr>"

text \<open>
  The review objects a listing page of plugin \<open>p\<close> gives for the reviews \<open>i\<close> to
  \<open>j - 1\<close>, before any of them is loaded.
\<close>

definition demo_reviews :: "string \<Rightarrow> nat \<Rightarrow> nat \<Rightarrow> WordpressReview list" where
  "demo_reviews p i j =
     map (\<lambda>k. unloaded_review (''/support/topic/'' @ p @ ''-'' @ str_nat k @ ''/'')) [i..<j]"

section \<open>Properties of the field extractors and of the review object\<close>

subsection \<open>Auxiliary facts\<close>

lemma py_int_digit: "is_digit c \<Longrightarrow> py_int [c] = Inr (int (digit_val c))"
  by (auto simp: py_int_def strip_def is_digit_def is_int_space_def Let_def)

lemma map_of_dict_set: "map_of (dict_set d k v) k = Some v"
  by (induction d k v rule: dict_set.induct) auto

lemma try_strptime_eq: "try_strptime env s = Inr (strptime env s)"
  by (simp add: try_strptime_def call_strptime_def split: option.splits)

lemma reply_comment_total: "\<exists>c. reply_comment env reply = Inr c"
  by (simp add: reply_comment_def Let_def try_strptime_eq split: option.splits)

lemma replies_loop_eq:
  "replies_loop env rs acc = Inr (acc @ map (\<lambda>r. projr (reply_comment env r)) rs)"
proof (induction rs arbitrary: acc)
  case Nil
  show ?case by simp
next
  case (Cons r rs)
  obtain c where c: "reply_comment env r = Inr c"
    using reply_comment_total by blast
  show ?case by (simp add: c Cons.IH)
qed

lemma find_replies_eq:
  "find_replies env soup =
     (let rs = soup_find_all soup ''div'' (Some ''reply'')
      in if rs = [] then Inr None else Inr (Some (map (\<lambda>r. projr (reply_comment env r)) rs)))"
  by (simp add: find_replies_def Let_def replies_loop_eq)

lemma reply_comment_unparsable:
  assumes "soup_find reply ''p'' (Some ''bbp-reply-post-date'') = Some post_date"
    and "soup_find post_date ''a'' None = Some date_object"
    and "strptime env (tag_get_default date_object ''title'' []) = None"
  shows "\<exists>comment. reply_comment env reply = Inr comment \<and> map_of comment ''date'' = Some PNone"
  using assms
  by (simp add: reply_comment_def Let_def try_strptime_eq map_of_dict_set)

lemma review_parse_find_text_error:
  "find_text soup = Inl e \<Longrightarrow>
     fst (review_parse env self soup) \<noteq> None \<and>
     text' (snd (review_parse env self soup)) = text' self"
  by (simp add: review_parse_def Let_def split: sum.splits)

lemma review_init_unloaded:
  "review_init env url False =
     (case urlparse_path env url of None \<Rightarrow> Inl ValueError | Some p \<Rightarrow> Inr (unloaded_review p))"
  by (simp add: review_init_def call_urlparse_path_def unloaded_review_def split: option.splits)

lemma opt_val_inject:
  assumes "opt_val f x = opt_val f y" and "\<And>a. f a \<noteq> PNone" and "inj f"
  shows "x = y"
proof (cases x; cases y)
  fix a assume "x = None" "y = Some a"
  with assms(1) have "f a = PNone" by (simp add: opt_val_def)
  with assms(2) show ?thesis by blast
next
  fix a assume "x = Some a" "y = None"
  with assms(1) have "f a = PNone" by (simp add: opt_val_def)
  with assms(2) show ?thesis by blast
next
  fix a b assume "x = Some a" "y = Some b"
  with assms(1) have "f a = f b" by (simp add: opt_val_def)
  with assms(3) have "a = b" by (rule_tac injD)
  with \<open>x = Some a\<close> \<open>y = Some b\<close> show ?thesis by simp
qed simp

lemma inj_PList_PStr: "inj (\<lambda>ts. PList (map PStr ts))"
  by (rule injI) (simp add: inj_on_def)

lemma inj_PList_PDict: "inj (\<lambda>cs. PList (map PDict cs))"
  by (rule injI) (simp add: inj_on_def)

lemma to_dict_inject:
  assumes "to_dict r = to_dict r'"
  shows "r\<lparr>loaded := l\<rparr> = r'\<lparr>loaded := l\<rparr>"
proof -
  from assms have p: "path r = path r'" by (simp add: to_dict_def)
  from assms have "opt_val PStr (title r) = opt_val PStr (title r')" by (simp add: to_dict_def)
  then have t: "title r = title r'" by (rule opt_val_inject) (simp_all add: inj_on_def)
  from assms have "opt_val PStr (date r) = opt_val PStr (date r')" by (simp add: to_dict_def)
  then have d: "date r = date r'" by (rule opt_val_inject) (simp_all add: inj_on_def)
  from assms have "opt_val (\<lambda>ts. PList (map PStr ts)) (tags r)
      = opt_val (\<lambda>ts. PList (map PStr ts)) (tags r')"
    by (simp add: to_dict_def)
  then have tg: "tags r = tags r'" by (rule opt_val_inject) (simp_all add: inj_PList_PStr)
  from assms have "opt_val PInt (rating r) = opt_val PInt (rating r')" by (simp add: to_dict_def)
  then have ra: "rating r = rating r'" by (rule opt_val_inject) (simp_all add: inj_on_def)
  from assms have "opt_val PStr (author r) = opt_val PStr (author r')" by (simp add: to_dict_def)
  then have au: "author r = author r'" by (rule opt_val_inject) (simp_all add: inj_on_def)
  from assms have "opt_val PStr (text' r) = opt_val PStr (text' r')" by (simp add: to_dict_def)
  then have tx: "text' r = text' r'" by (rule opt_val_inject) (simp_all add: inj_on_def)
  from assms have "opt_val PInt (replies r) = opt_val PInt (replies r')" by (simp add: to_dict_def)
  then have re: "replies r = replies r'" by (rule opt_val_inject) (simp_all add: inj_on_def)
  from assms have "opt_val PInt (participants r) = opt_val PInt (participants r')"
    by (simp add: to_dict_def)
  then have pa: "participants r = participants r'"
    by (rule opt_val_inject) (simp_all add: inj_on_def)
  from assms have "opt_val (\<lambda>cs. PList (map PDict cs)) (comments r)
      = opt_val (\<lambda>cs. PList (map PDict cs)) (comments r')"
    by (simp add: to_dict_def)
  then have co: "comments r = comments r'" by (rule opt_val_inject) (simp_all add: inj_PList_PDict)
  from assms have "opt_val PStr (support r) = opt_val PStr (support r')" by (simp add: to_dict_def)
  then have su: "support r = support r'" by (rule opt_val_inject) (simp_all add: inj_on_def)
  from assms have "opt_val PStr (support_comment r) = opt_val PStr (support_comment r')"
    by (simp add: to_dict_def)
  then have sc: "support_comment r = support_comment r'"
    by (rule opt_val_inject) (simp_all add: inj_on_def)
  from p t d tg ra au tx re pa co su sc show ?thesis by simp
qed

lemma review_parse_path: "review_parse env self soup = (out, r) \<Longrightarrow> path r = path self"
  by (auto simp: review_parse_def Let_def split: sum.splits)

lemma review_load_path: "review_load env self = (out, r) \<Longrightarrow> path r = path self"
  by (auto simp: review_load_def Let_def split: sum.splits prod.splits option.splits if_splits
           dest: review_parse_path)

lemma review_load_loaded: "review_load env self = (None, r) \<Longrightarrow> loaded r = Some True"
  by (auto simp: review_load_def Let_def split: sum.splits prod.splits option.splits if_splits)

subsection \<open>The rating\<close>

text \<open>
  C9. When the title of the ratings widget starts with a digit, the rating is that digit
  as an integer, whatever follows it: only the first character is read, so a title that
  starts with \<open>10\<close> gives 1. When the document has no ratings widget the rating is
  \<open>None\<close>.
\<close>

theorem find_rating_leading_digit:
  "(soup_find soup ''div'' (Some ''wporg-ratings'') = Some widget \<and>
    tag_get widget ''title'' = Some (c # rest) \<and> is_digit c
      \<longrightarrow> find_rating soup = Inr (Some (int (digit_val c))))
   \<and> (soup_find soup ''div'' (Some ''wporg-ratings'') = None \<longrightarrow> find_rating soup = Inr None)"
  by (simp add: find_rating_def py_int_digit)

theorem find_rating_leading_digit_witness:
  "soup_find
      (Tag ''[document]'' []
         [Tag ''div'' [(''class'', ''wporg-ratings''), (''title'', ''10 out of 5 stars'')] []])
      ''div'' (Some ''wporg-ratings'')
     = Some (Tag ''div'' [(''class'', ''wporg-ratings''), (''title'', ''10 out of 5 stars'')] [])
   \<and> tag_get (Tag ''div'' [(''class'', ''wporg-ratings''), (''title'', ''10 out of 5 stars'')] [])
        ''title''
     = Some (CHR ''1'' # ''0 out of 5 stars'')
   \<and> is_digit CHR ''1''
   \<and> find_rating
        (Tag ''[document]'' []
           [Tag ''div'' [(''class'', ''wporg-ratings''), (''title'', ''10 out of 5 stars'')] []])
     = Inr (Some 1)
   \<and> soup_find (listing_page [] False) ''div'' (Some ''wporg-ratings'') = None
   \<and> find_rating (listing_page [] False) = Inr None"
proof -
  let ?w = "Tag ''div'' [(''class'', ''wporg-ratings''), (''title'', ''10 out of 5 stars'')] []"
  let ?doc = "Tag ''[document]'' [] [?w]"
  have h1: "soup_find ?doc ''div'' (Some ''wporg-ratings'') = Some ?w" by code_simp
  have h2: "tag_get ?w ''title'' = Some (CHR ''1'' # ''0 out of 5 stars'')" by simp
  have h3: "is_digit CHR ''1''" by (simp add: is_digit_def)
  have h4: "soup_find (listing_page [] False) ''div'' (Some ''wporg-ratings'') = None"
    by code_simp
  have d: "int (digit_val CHR ''1'') = 1" by (simp add: digit_val_def)
  from find_rating_leading_digit
    [where soup = ?doc and widget = ?w and c = "CHR ''1''" and rest = "''0 out of 5 stars''"] h1 h2 h3
  have r1: "find_rating ?doc = Inr (Some 1)" unfolding d by blast
  from find_rating_leading_digit [where soup = "listing_page [] False"] h4
  have r2: "find_rating (listing_page [] False) = Inr None" by blast
  from h1 h2 h3 h4 r1 r2 show ?thesis by blast
qed

subsection \<open>The body text\<close>

text \<open>
  C6. A document without a \<^verbatim>\<open>div\<close> of class \<^verbatim>\<open>bbp-topic-content\<close> makes the text
  extractor raise \<open>AttributeError\<close>; the parse of the review then ends with an
  exception and leaves the attribute \<^verbatim>\<open>text\<close> as it was, never set to \<open>None\<close> by
  this parse. A document where the block is there and holds no paragraph gives the text
  \<open>None\<close> without an exception.
\<close>

theorem find_text_missing_block:
  "(soup_find soup ''div'' (Some ''bbp-topic-content'') = None \<longrightarrow>
      find_text soup = Inl AttributeError
      \<and> fst (review_parse env self soup) \<noteq> None
      \<and> text' (snd (review_parse env self soup)) = text' self)
   \<and> (soup_find soup ''div'' (Some ''bbp-topic-content'') = Some block \<and>
      soup_find_all block ''p'' None = [] \<longrightarrow> find_text soup = Inr None)"
proof (intro conjI impI)
  assume a: "soup_find soup ''div'' (Some ''bbp-topic-content'') = None"
  then show t: "find_text soup = Inl AttributeError" by (simp add: find_text_def)
  from review_parse_find_text_error [OF t]
  show "fst (review_parse env self soup) \<noteq> None"
    and "text' (snd (review_parse env self soup)) = text' self" by simp_all
next
  assume "soup_find soup ''div'' (Some ''bbp-topic-content'') = Some block \<and>
      soup_find_all block ''p'' None = []"
  then show "find_text soup = Inr None" by (simp add: find_text_def)
qed

theorem find_text_missing_block_witness:
  "soup_find (listing_page [] False) ''div'' (Some ''bbp-topic-content'') = None
   \<and> find_text (listing_page [] False) = Inl AttributeError
   \<and> fst (review_parse demo_env (unloaded_review ''/support/topic/solo-1/'')
             (listing_page [] False)) \<noteq> None
   \<and> text' (snd (review_parse demo_env (unloaded_review ''/support/topic/solo-1/'')
                    (listing_page [] False)))
       = text' (unloaded_review ''/support/topic/solo-1/'')
   \<and> soup_find
        (Tag ''[document]'' []
           [Tag ''div'' [(''class'', ''bbp-topic-content'')] [NavigableString ''Nice'']])
        ''div'' (Some ''bbp-topic-content'')
       = Some (Tag ''div'' [(''class'', ''bbp-topic-content'')] [NavigableString ''Nice''])
   \<and> soup_find_all (Tag ''div'' [(''class'', ''bbp-topic-content'')] [NavigableString ''Nice''])
        ''p'' None = []
   \<and> find_text
        (Tag ''[document]'' []
           [Tag ''div'' [(''class'', ''bbp-topic-content'')] [NavigableString ''Nice'']])
       = Inr None"
proof -
  let ?b = "Tag ''div'' [(''class'', ''bbp-topic-content'')] [NavigableString ''Nice'']"
  let ?doc = "Tag ''[document]'' [] [?b]"
  let ?r = "unloaded_review ''/support/topic/solo-1/''"
  have h1: "soup_find (listing_page [] False) ''div'' (Some ''bbp-topic-content'') = None"
    by code_simp
  have h2: "soup_find ?doc ''div'' (Some ''bbp-topic-content'') = Some ?b" by code_simp
  have h3: "soup_find_all ?b ''p'' None = []" by code_simp
  from find_text_missing_block
    [where soup = "listing_page [] False" and env = demo_env and self = ?r] h1
  have c1: "find_text (listing_page [] False) = Inl AttributeError"
    and c2: "fst (review_parse demo_env ?r (listing_page [] False)) \<noteq> None"
    and c3: "text' (snd (review_parse demo_env ?r (listing_page [] False))) = text' ?r"
    by blast+
  from find_text_missing_block [where soup = ?doc and block = ?b] h2 h3
  have c4: "find_text ?doc = Inr None" by blast
  from h1 h2 h3 c1 c2 c3 c4 show ?thesis by blast
qed

subsection \<open>Dates\<close>

text \<open>
  C7. When the title of the permalink anchor does not parse in the format
  \<^verbatim>\<open>%B %d, %Y at %I:%M %p\<close>, the date extractor returns \<open>None\<close> and raises nothing.
  The same holds for the replies: when the anchor in the date paragraph of a reply block
  has a title that does not parse, the reply extractor raises nothing and the dictionary
  of that reply holds the key \<^verbatim>\<open>date\<close> with the value \<open>None\<close>.
\<close>

theorem unparsable_date_is_null:
  "(soup_find soup ''a'' (Some ''bbp-topic-permalink'') = Some anchor \<and>
    strptime env (tag_get_default anchor ''title'' []) = None
      \<longrightarrow> find_date env soup = Inr None)
   \<and> (soup_find_all soup ''div'' (Some ''reply'') = rs \<and> i < length rs \<and>
      soup_find (rs ! i) ''p'' (Some ''bbp-reply-post-date'') = Some post_date \<and>
      soup_find post_date ''a'' None = Some date_object \<and>
      strptime env (tag_get_default date_object ''title'' []) = None
      \<longrightarrow> (\<exists>cs. find_replies env soup = Inr (Some cs) \<and> length cs = length rs \<and>
                map_of (cs ! i) ''date'' = Some PNone))"
proof (intro conjI impI)
  assume "soup_find soup ''a'' (Some ''bbp-topic-permalink'') = Some anchor \<and>
    strptime env (tag_get_default anchor ''title'' []) = None"
  then show "find_date env soup = Inr None"
    by (simp add: find_date_def Let_def try_strptime_eq)
next
  assume a: "soup_find_all soup ''div'' (Some ''reply'') = rs \<and> i < length rs \<and>
      soup_find (rs ! i) ''p'' (Some ''bbp-reply-post-date'') = Some post_date \<and>
      soup_find post_date ''a'' None = Some date_object \<and>
      strptime env (tag_get_default date_object ''title'' []) = None"
  then obtain comment where c: "reply_comment env (rs ! i) = Inr comment"
      "map_of comment ''date'' = Some PNone"
    using reply_comment_unparsable by blast
  from a have ne: "rs \<noteq> []" by auto
  let ?cs = "map (\<lambda>r. projr (reply_comment env r)) rs"
  from a ne have "find_replies env soup = Inr (Some ?cs)"
    by (simp add: find_replies_eq)
  moreover have "length ?cs = length rs" by simp
  moreover from a c have "map_of (?cs ! i) ''date'' = Some PNone" by simp
  ultimately show "\<exists>cs. find_replies env soup = Inr (Some cs) \<and> length cs = length rs \<and>
                map_of (cs ! i) ''date'' = Some PNone" by blast
qed

theorem unparsable_date_is_null_witness:
  "soup_find
      (Tag ''[document]'' []
         [Tag ''a'' [(''class'', ''bbp-topic-permalink''), (''title'', ''yesterday'')] []])
      ''a'' (Some ''bbp-topic-permalink'')
     = Some (Tag ''a'' [(''class'', ''bbp-topic-permalink''), (''title'', ''yesterday'')] [])
   \<and> strptime demo_env
        (tag_get_default
           (Tag ''a'' [(''class'', ''bbp-topic-permalink''), (''title'', ''yesterday'')] [])
           ''title'' []) = None
   \<and> find_date demo_env
        (Tag ''[document]'' []
           [Tag ''a'' [(''class'', ''bbp-topic-permalink''), (''title'', ''yesterday'')] []])
     = Inr None
   \<and> soup_find_all (detail_page ''Great'') ''div'' (Some ''reply'') = [reply_block]
   \<and> 0 < length [reply_block]
   \<and> soup_find ([reply_block] ! 0) ''p'' (Some ''bbp-reply-post-date'')
     = Some (Tag ''p'' [(''class'', ''bbp-reply-post-date'')]
               [Tag ''a'' [(''title'', ''2 weeks ago'')] []])
   \<and> soup_find (Tag ''p'' [(''class'', ''bbp-reply-post-date'')]
                  [Tag ''a'' [(''title'', ''2 weeks ago'')] []]) ''a'' None
     = Some (Tag ''a'' [(''title'', ''2 weeks ago'')] [])
   \<and> strptime demo_env
        (tag_get_default (Tag ''a'' [(''title'', ''2 weeks ago'')] []) ''title'' []) = None
   \<and> (\<exists>cs. find_replies demo_env (detail_page ''Great'') = Inr (Some cs) \<and>
            length cs = length [reply_block] \<and> map_of (cs ! 0) ''date'' = Some PNone)"
proof -
  let ?a = "Tag ''a'' [(''class'', ''bbp-topic-permalink''), (''title'', ''yesterday'')] []"
  let ?doc = "Tag ''[document]'' [] [?a]"
  let ?d = "Tag ''a'' [(''title'', ''2 weeks ago'')] []"
  let ?p = "Tag ''p'' [(''class'', ''bbp-reply-post-date'')] [?d]"
  have h1: "soup_find ?doc ''a'' (Some ''bbp-topic-permalink'') = Some ?a" by code_simp
  have h2: "strptime demo_env (tag_get_default ?a ''title'' []) = None" by code_simp
  have h3: "soup_find_all (detail_page ''Great'') ''div'' (Some ''reply'') = [reply_block]"
    by code_simp
  have h4: "0 < length [reply_block]" by simp
  have h5: "soup_find ([reply_block] ! 0) ''p'' (Some ''bbp-reply-post-date'') = Some ?p"
    by code_simp
  have h6: "soup_find ?p ''a'' None = Some ?d" by code_simp
  have h7: "strptime demo_env (tag_get_default ?d ''title'' []) = None" by code_simp
  from unparsable_date_is_null [where soup = ?doc and anchor = ?a and env = demo_env] h1 h2
  have c1: "find_date demo_env ?doc = Inr None" by blast
  from unparsable_date_is_null
    [where soup = "detail_page ''Great''" and env = demo_env and rs = "[reply_block]" and i = 0
       and post_date = ?p and date_object = ?d]
    h3 h4 h5 h6 h7
  have c2: "\<exists>cs. find_replies demo_env (detail_page ''Great'') = Inr (Some cs) \<and>
            length cs = length [reply_block] \<and> map_of (cs ! 0) ''date'' = Some PNone"
    by blast
  from h1 h2 h3 h4 h5 h6 h7 c1 c2 show ?thesis by blast
qed

subsection \<open>Serialisation\<close>

text \<open>
  C8. \<open>to_dict\<close> gives a flat dictionary with exactly the twelve keys \<^verbatim>\<open>path\<close>,
  \<^verbatim>\<open>title\<close>, \<^verbatim>\<open>date\<close>, \<^verbatim>\<open>tags\<close>, \<^verbatim>\<open>rating\<close>, \<^verbatim>\<open>author\<close>, \<^verbatim>\<open>text\<close>,
  \<^verbatim>\<open>replies\<close>, \<^verbatim>\<open>participants\<close>, \<^verbatim>\<open>comments\<close>, \<^verbatim>\<open>support\<close> and
  \<^verbatim>\<open>support_comment\<close>, each with the current value of the attribute of that name, and
  nothing is lost: two objects with the same dictionary agree on all twelve attributes.
  For an object as the constructor leaves it, \<^verbatim>\<open>tags\<close> and \<^verbatim>\<open>comments\<close> are
  empty lists in the dictionary, not \<open>None\<close>.
\<close>

theorem to_dict_fields:
  "map fst (to_dict r) =
     [''path'', ''title'', ''date'', ''tags'', ''rating'', ''author'', ''text'', ''replies'',
      ''participants'', ''comments'', ''support'', ''support_comment'']
   \<and> map snd (to_dict r) =
     [PStr (path r), opt_val PStr (title r), opt_val PStr (date r),
      opt_val (\<lambda>ts. PList (map PStr ts)) (tags r), opt_val PInt (rating r),
      opt_val PStr (author r), opt_val PStr (text' r), opt_val PInt (replies r),
      opt_val PInt (participants r), opt_val (\<lambda>cs. PList (map PDict cs)) (comments r),
      opt_val PStr (support r), opt_val PStr (support_comment r)]
   \<and> (to_dict r = to_dict r' \<longrightarrow> r\<lparr>loaded := l\<rparr> = r'\<lparr>loaded := l\<rparr>)
   \<and> (review_init env url False = Inr r \<longrightarrow>
        map_of (to_dict r) ''tags'' = Some (PList []) \<and>
        map_of (to_dict r) ''comments'' = Some (PList []))"
proof (intro conjI impI)
  show "map fst (to_dict r) =
     [''path'', ''title'', ''date'', ''tags'', ''rating'', ''author'', ''text'', ''replies'',
      ''participants'', ''comments'', ''support'', ''support_comment'']"
    by (simp add: to_dict_def)
  show "map snd (to_dict r) =
     [PStr (path r), opt_val PStr (title r), opt_val PStr (date r),
      opt_val (\<lambda>ts. PList (map PStr ts)) (tags r), opt_val PInt (rating r),
      opt_val PStr (author r), opt_val PStr (text' r), opt_val PInt (replies r),
      opt_val PInt (participants r), opt_val (\<lambda>cs. PList (map PDict cs)) (comments r),
      opt_val PStr (support r), opt_val PStr (support_comment r)]"
    by (simp add: to_dict_def)
  show "r\<lparr>loaded := l\<rparr> = r'\<lparr>loaded := l\<rparr>" if "to_dict r = to_dict r'"
    using that by (rule to_dict_inject)
  assume "review_init env url False = Inr r"
  then obtain p where r: "r = unloaded_review p"
    by (auto simp: review_init_unloaded split: option.splits)
  show "map_of (to_dict r) ''tags'' = Some (PList [])"
    by (simp add: r to_dict_def unloaded_review_def opt_val_def)
  show "map_of (to_dict r) ''comments'' = Some (PList [])"
    by (simp add: r to_dict_def unloaded_review_def opt_val_def)
qed

theorem to_dict_fields_witness:
  "review_init demo_env (Some (topic_url ''solo'' 1)) False
     = Inr (unloaded_review ''/support/topic/solo-1/'')
   \<and> to_dict (unloaded_review ''/support/topic/solo-1/'')
     = to_dict (unloaded_review ''/support/topic/solo-1/'')
   \<and> map fst (to_dict (unloaded_review ''/support/topic/solo-1/'')) =
     [''path'', ''title'', ''date'', ''tags'', ''rating'', ''author'', ''text'', ''replies'',
      ''participants'', ''comments'', ''support'', ''support_comment'']
   \<and> map_of (to_dict (unloaded_review ''/support/topic/solo-1/'')) ''tags'' = Some (PList [])
   \<and> map_of (to_dict (unloaded_review ''/support/topic/solo-1/'')) ''comments''
     = Some (PList [])
   \<and> (unloaded_review ''/support/topic/solo-1/'')\<lparr>loaded := None\<rparr>
     = (unloaded_review ''/support/topic/solo-1/'')\<lparr>loaded := None\<rparr>"
proof -
  let ?r = "unloaded_review ''/support/topic/solo-1/''"
  have h1: "review_init demo_env (Some (topic_url ''solo'' 1)) False = Inr ?r" by code_simp
  have h2: "to_dict ?r = to_dict ?r" by simp
  from to_dict_fields
    [where r = ?r and r' = ?r and l = None and env = demo_env
       and url = "Some (topic_url ''solo'' 1)"] h1 h2
  show ?thesis by blast
qed

subsection \<open>Construction with autoload\<close>

text \<open>
  C10. When \<^verbatim>\<open>WordpressReview(url, autoload=True)\<close> returns an object, every
  extracted attribute of that object has its default again: \<^verbatim>\<open>title\<close>, \<^verbatim>\<open>date\<close>,
  \<^verbatim>\<open>rating\<close>, \<^verbatim>\<open>author\<close>, \<^verbatim>\<open>text\<close>, \<^verbatim>\<open>replies\<close>, \<^verbatim>\<open>participants\<close>,
  \<^verbatim>\<open>support\<close> and \<^verbatim>\<open>support_comment\<close> are \<open>None\<close>, \<^verbatim>\<open>tags\<close> and \<^verbatim>\<open>comments\<close>
  are empty lists, whatever the page held, because the defaults are assigned after the
  load. Only the path and the flag \<^verbatim>\<open>loaded\<close>, which is true, are kept.
\<close>

theorem autoload_fields_reset:
  assumes "review_init env url True = Inr r"
  shows "r = (unloaded_review (path r))\<lparr>loaded := Some True\<rparr> \<and>
         urlparse_path env url = Some (path r)"
proof -
  from assms obtain p where p: "urlparse_path env url = Some p"
    by (auto simp: review_init_def call_urlparse_path_def split: option.splits)
  let ?self = "\<lparr>path = p, loaded = None, title = None, date = None, tags = None,
                       rating = None, author = None, text' = None, replies = None,
                       participants = None, comments = None, support = None,
                       support_comment = None\<rparr>"
  from assms p obtain s where l: "review_load env ?self = (None, s)"
    and r: "r = s\<lparr>title := None, date := None, tags := Some [], rating := None,
                            author := None, text' := None, replies := None,
                            participants := None, comments := Some [], support := None,
                            support_comment := None\<rparr>"
    by (auto simp: review_init_def call_urlparse_path_def split: option.splits prod.splits)
  from review_load_path [OF l] have ps: "path s = p" by simp
  from review_load_loaded [OF l] have ls: "loaded s = Some True" .
  from r ps ls have "r = (unloaded_review p)\<lparr>loaded := Some True\<rparr>"
    by (simp add: unloaded_review_def)
  moreover from this have "path r = p" by (simp add: unloaded_review_def)
  ultimately show ?thesis using p by simp
qed

theorem autoload_fields_reset_witness:
  "review_init demo_env (Some (topic_url ''solo'' 1)) True
     = Inr ((unloaded_review ''/support/topic/solo-1/'')\<lparr>loaded := Some True\<rparr>)
   \<and> title (snd (review_load demo_env (unloaded_review ''/support/topic/solo-1/'')))
     = Some ''solo-1/''
   \<and> (unloaded_review ''/support/topic/solo-1/'')\<lparr>loaded := Some True\<rparr>
     = (unloaded_review
          (path ((unloaded_review ''/support/topic/solo-1/'')\<lparr>loaded := Some True\<rparr>)))
        \<lparr>loaded := Some True\<rparr>
   \<and> urlparse_path demo_env (Some (topic_url ''solo'' 1))
     = Some (path ((unloaded_review ''/support/topic/solo-1/'')\<lparr>loaded := Some True\<rparr>))"
proof -
  let ?r = "(unloaded_review ''/support/topic/solo-1/'')\<lparr>loaded := Some True\<rparr>"
  have h: "review_init demo_env (Some (topic_url ''solo'' 1)) True = Inr ?r" by code_simp
  have t: "title (snd (review_load demo_env (unloaded_review ''/support/topic/solo-1/'')))
     = Some ''solo-1/''" by code_simp
  from autoload_fields_reset [OF h] h t show ?thesis by blast
qed

section \<open>Properties of the cursor\<close>

subsection \<open>Auxiliary facts\<close>

lemma ceil_div_page:
  assumes "30 * (p - 1) < n" and "n \<le> 30 * p"
  shows "ceil_div n 30 = p"
proof -
  have "(- n) div 30 = - p"
    by (rule int_div_pos_eq [where r = "30 * p - n"]) (use assms in simp_all)
  then show ?thesis by (simp add: ceil_div_def)
qed

lemma link_review_no: "link (self\<lparr>review_no := n\<rparr>) page = link self page"
  by (simp add: link_def)

lemma list_parse_review_no:
  "list_parse env (self\<lparr>review_no := n\<rparr>) soup =
     (case list_parse env self soup of (r, s) \<Rightarrow> (r, s\<lparr>review_no := n\<rparr>))"
  by (simp add: list_parse_def Let_def split: sum.splits)

lemma list_load_review_no:
  "list_load env (self\<lparr>review_no := n\<rparr>) page =
     (case list_load env self page of (r, s) \<Rightarrow> (r, s\<lparr>review_no := n\<rparr>))"
  by (simp add: list_load_def Let_def list_parse_review_no link_review_no
           split: sum.splits prod.splits)

lemma cached_page_review_no:
  "cached_page env (self\<lparr>review_no := n\<rparr>) page =
     (case cached_page env self page of (r, s) \<Rightarrow> (r, s\<lparr>review_no := n\<rparr>))"
  by (simp add: cached_page_def list_load_review_no split: option.splits sum.splits prod.splits)

lemma list_parse_keeps:
  "list_parse env self soup = (r, s) \<Longrightarrow>
     review_no s = review_no self \<and> page_html s = page_html self \<and> plugin s = plugin self"
  by (auto simp: list_parse_def Let_def split: sum.splits)

lemma list_load_keeps:
  "list_load env self page = (r, s) \<Longrightarrow>
     review_no s = review_no self \<and> page_html s = page_html self \<and> plugin s = plugin self"
  by (auto simp: list_load_def Let_def split: sum.splits prod.splits if_splits dest: list_parse_keeps)

lemma cached_page_review_no_eq:
  "cached_page env self page = (r, s) \<Longrightarrow> review_no s = review_no self"
  by (auto simp: cached_page_def split: option.splits sum.splits prod.splits dest: list_load_keeps)

lemma cached_page_cached:
  "cached_page env self page = (Inr pg, s) \<Longrightarrow> page_html s page = Some pg"
  by (auto simp: cached_page_def split: option.splits sum.splits prod.splits)

lemma cached_page_hit:
  "page_html self page = Some pg \<Longrightarrow> cached_page env self page = (Inr pg, self)"
  by (simp add: cached_page_def)

lemma wp_review_exhausted:
  assumes pg: "cached_page env self (ceil_div n 30) = (Inr pg, s1)"
    and len: "length pg < 30"
    and j: "int (length pg) < n - 30 * (ceil_div n 30 - 1)"
  shows "wp_review env self n = (Inl StopIteration, s1)"
proof -
  have "n - ceil_div n 30 * 30 + (30 - int (length pg)) > 0"
    using j by (simp add: algebra_simps)
  then show ?thesis
    unfolding wp_review_def WORDPRESS_REVIEWS_PER_PAGE_def Let_def
    using len by (simp add: pg)
qed

lemma py_index_from_end:
  "1 \<le> j \<Longrightarrow> j \<le> int (length xs) \<Longrightarrow>
     py_index xs (j - int (length xs) - 1) = Inr (nat (j - 1), xs ! nat (j - 1))"
  by (simp add: py_index_def Let_def)

lemma wp_review_select:
  assumes pg: "cached_page env self (ceil_div n 30) = (Inr pg, s1)"
    and j: "1 \<le> n - 30 * (ceil_div n 30 - 1)" "n - 30 * (ceil_div n 30 - 1) \<le> int (length pg)"
    and len: "length pg \<le> 30"
  shows "wp_review env self n =
           (case review_load env (pg ! nat (n - 30 * (ceil_div n 30 - 1) - 1)) of
              (out, r) \<Rightarrow>
                (case out of Some e \<Rightarrow> Inl e | None \<Rightarrow> Inr r,
                 s1\<lparr>page_html := (page_html s1)
                      (ceil_div n 30 \<mapsto> pg[nat (n - 30 * (ceil_div n 30 - 1) - 1) := r])\<rparr>))"
proof -
  let ?p = "ceil_div n 30"
  let ?j = "n - 30 * (?p - 1)"
  let ?k = "if int (length pg) < 30 then n - ?p * 30 + (30 - int (length pg)) else n - ?p * 30"
  have k: "?k = ?j - int (length pg)" using len by auto
  have le: "\<not> ?k > 0" using j unfolding k by linarith
  have "py_index pg (?j - int (length pg) - 1) = Inr (nat (?j - 1), pg ! nat (?j - 1))"
    using j by (rule py_index_from_end)
  then have idx: "py_index pg (?k - 1) = Inr (nat (?j - 1), pg ! nat (?j - 1))"
    unfolding k .
  have "wp_review env self n =
          (if ?k > 0 then (Inl StopIteration, s1)
           else (case py_index pg (?k - 1) of
                   Inl e \<Rightarrow> (Inl e, s1)
                 | Inr (i, review) \<Rightarrow>
                     (case review_load env review of
                        (out, review) \<Rightarrow>
                          (case out of Some e \<Rightarrow> Inl e | None \<Rightarrow> Inr review,
                           s1\<lparr>page_html := (page_html s1)(?p \<mapsto> pg[i := review])\<rparr>))))"
    unfolding wp_review_def WORDPRESS_REVIEWS_PER_PAGE_def Let_def pg by simp
  also have "\<dots> = (case review_load env (pg ! nat (?j - 1)) of
                        (out, review) \<Rightarrow>
                          (case out of Some e \<Rightarrow> Inl e | None \<Rightarrow> Inr review,
                           s1\<lparr>page_html := (page_html s1)(?p \<mapsto> pg[nat (?j - 1) := review])\<rparr>))"
    unfolding idx using le by simp
  finally show ?thesis .
qed

lemma ceil_div_bounds: "30 * (ceil_div n 30 - 1) < n \<and> n \<le> 30 * ceil_div n 30"
  unfolding ceil_div_def by (simp add: algebra_simps) linarith

lemma find_date_error:
  "find_date env soup = Inl e \<Longrightarrow> e \<in> {ValueError, OverflowError, OSError}"
  by (auto simp: find_date_def Let_def try_strptime_eq call_astimezone_utc_def
           split: option.splits sum.splits tz_error.splits)

lemma py_int_error: "py_int s = Inl e \<Longrightarrow> e = ValueError"
  by (auto simp: py_int_def Let_def split: option.splits)

lemma find_rating_error: "find_rating soup = Inl e \<Longrightarrow> e \<in> {TypeError, IndexError, ValueError}"
  by (auto simp: find_rating_def split: option.splits list.splits sum.splits dest: py_int_error)

lemma find_text_error: "find_text soup = Inl e \<Longrightarrow> e = AttributeError"
  by (auto simp: find_text_def Let_def split: option.splits if_splits)

lemma find_replies_num_error: "find_replies_num soup = Inl e \<Longrightarrow> e = ValueError"
  by (auto simp: find_replies_num_def split: option.splits sum.splits dest: py_int_error)

lemma find_participants_num_error: "find_participants_num soup = Inl e \<Longrightarrow> e = ValueError"
  by (auto simp: find_participants_num_def split: option.splits sum.splits dest: py_int_error)

lemma find_replies_no_error: "find_replies env soup \<noteq> Inl e"
  by (simp add: find_replies_eq Let_def)

lemma review_parse_not_stop: "review_parse env self soup = (Some e, r) \<Longrightarrow> e \<noteq> StopIteration"
  by (auto simp: review_parse_def Let_def find_replies_no_error split: sum.splits
           dest: find_date_error find_rating_error find_text_error find_replies_num_error
                 find_participants_num_error)

lemma review_load_not_stop: "review_load env self = (Some e, r) \<Longrightarrow> e \<noteq> StopIteration"
  by (auto simp: review_load_def Let_def call_http_get_def
           split: sum.splits option.splits if_splits prod.splits dest: review_parse_not_stop)

lemma review_urls_error: "review_urls ts = Inl e \<Longrightarrow> e = AttributeError"
  by (induction ts rule: review_urls.induct) (auto split: sum.splits)

lemma new_reviews_error: "new_reviews env urls = Inl e \<Longrightarrow> e = ValueError"
  by (induction urls) (auto simp: review_init_unloaded split: sum.splits option.splits)

lemma list_parse_not_stop: "list_parse env self soup = (Inl e, s) \<Longrightarrow> e \<noteq> StopIteration"
  by (auto simp: list_parse_def Let_def split: sum.splits
           dest: review_urls_error new_reviews_error)

lemma list_load_not_stop: "list_load env self page = (Inl e, s) \<Longrightarrow> e \<noteq> StopIteration"
  by (auto simp: list_load_def Let_def call_http_get_def
           split: sum.splits option.splits if_splits prod.splits dest: list_parse_not_stop)

lemma cached_page_not_stop: "cached_page env self page = (Inl e, s) \<Longrightarrow> e \<noteq> StopIteration"
  by (auto simp: cached_page_def split: option.splits sum.splits prod.splits
           dest: list_load_not_stop)

lemma py_index_error: "py_index xs i = Inl e \<Longrightarrow> e = IndexError"
  by (auto simp: py_index_def Let_def split: if_splits)

lemma wp_review_review_no: "review_no (snd (wp_review env self n)) = review_no self"
proof -
  obtain r s where c: "cached_page env self (ceil_div n 30) = (r, s)"
    by (cases "cached_page env self (ceil_div n 30)")
  then have "review_no s = review_no self" by (rule cached_page_review_no_eq)
  with c show ?thesis
    by (auto simp: wp_review_def WORDPRESS_REVIEWS_PER_PAGE_def Let_def
             split: sum.splits prod.splits)
qed

text \<open>What a call that signals exhaustion must have found.\<close>

lemma wp_review_stop:
  assumes "wp_review env self n = (Inl StopIteration, s1)"
  shows "\<exists>pg. cached_page env self (ceil_div n 30) = (Inr pg, s1) \<and> length pg < 30 \<and>
              int (length pg) < n - 30 * (ceil_div n 30 - 1)"
proof -
  obtain r s where c: "cached_page env self (ceil_div n 30) = (r, s)"
    by (cases "cached_page env self (ceil_div n 30)")
  show ?thesis
  proof (cases r)
    case (Inl e)
    with c assms have "e = StopIteration" "s = s1"
      by (simp_all add: wp_review_def WORDPRESS_REVIEWS_PER_PAGE_def Let_def)
    with c Inl cached_page_not_stop show ?thesis by blast
  next
    case (Inr pg)
    let ?p = "ceil_div n 30"
    let ?k = "if int (length pg) < 30 then n - ?p * 30 + (30 - int (length pg)) else n - ?p * 30"
    have eq: "wp_review env self n =
          (if ?k > 0 then (Inl StopIteration, s)
           else (case py_index pg (?k - 1) of
                   Inl e \<Rightarrow> (Inl e, s)
                 | Inr (i, review) \<Rightarrow>
                     (case review_load env review of
                        (out, review) \<Rightarrow>
                          (case out of Some e \<Rightarrow> Inl e | None \<Rightarrow> Inr review,
                           s\<lparr>page_html := (page_html s)(?p \<mapsto> pg[i := review])\<rparr>))))"
      unfolding wp_review_def WORDPRESS_REVIEWS_PER_PAGE_def Let_def c Inr by simp
    have pos: "?k > 0"
    proof (rule ccontr)
      assume n: "\<not> ?k > 0"
      show False
      proof (cases "py_index pg (?k - 1)")
        case (Inl e)
        with assms eq n py_index_error [OF Inl] show False by simp
      next
        case (Inr ir)
        obtain i review where ir: "ir = (i, review)" by (cases ir)
        obtain out r' where l: "review_load env review = (out, r')"
          by (cases "review_load env review")
        from assms eq n Inr ir l have "out = Some StopIteration"
          by (auto split: option.splits)
        with l review_load_not_stop show False by blast
      qed
    qed
    with assms eq have s: "s = s1" by simp
    from pos ceil_div_bounds [of n] have "int (length pg) < 30"
      by (auto split: if_splits)
    moreover from this pos have "int (length pg) < n - 30 * (?p - 1)" by simp
    ultimately show ?thesis using c Inr s by auto
  qed
qed

lemma list_next_wp_review:
  "list_next env self = wp_review env (self\<lparr>review_no := review_no self + 1\<rparr>) (review_no self)"
  by (simp add: list_next_def Let_def)

lemma list_next_exhausted_step:
  assumes "page_html s p = Some pg" and "length pg < 30"
    and "30 * (p - 1) + int (length pg) < review_no s" and "review_no s \<le> 30 * p"
  shows "list_next env s = (Inl StopIteration, s\<lparr>review_no := review_no s + 1\<rparr>)"
proof -
  let ?s = "s\<lparr>review_no := review_no s + 1\<rparr>"
  from assms have p: "ceil_div (review_no s) 30 = p"
    by (intro ceil_div_page) simp_all
  from assms(1) have "cached_page env ?s p = (Inr pg, ?s)"
    by (simp add: cached_page_def)
  with p have c: "cached_page env ?s (ceil_div (review_no s) 30) = (Inr pg, ?s)" by simp
  from assms(3) p have "int (length pg) < review_no s - 30 * (ceil_div (review_no s) 30 - 1)"
    by simp
  with c assms(2) have "wp_review env ?s (review_no s) = (Inl StopIteration, ?s)"
    by (rule wp_review_exhausted)
  then show ?thesis by (simp add: list_next_wp_review)
qed

lemma next_calls_exhausted:
  assumes "page_html s p = Some pg" and "length pg < 30"
    and "30 * (p - 1) + int (length pg) < review_no s"
    and "review_no s + int m \<le> 30 * p + 1"
  shows "fst (next_calls env m s) = replicate m (Inl StopIteration)"
  using assms
proof (induction m arbitrary: s)
  case 0
  show ?case by simp
next
  case (Suc m)
  let ?s = "s\<lparr>review_no := review_no s + 1\<rparr>"
  from Suc.prems have le: "review_no s \<le> 30 * p" by linarith
  from Suc.prems(1-3) le have step: "list_next env s = (Inl StopIteration, ?s)"
    by (rule list_next_exhausted_step)
  have "fst (next_calls env m ?s) = replicate m (Inl StopIteration)"
  proof (rule Suc.IH)
    show "page_html ?s p = Some pg" using Suc.prems(1) by simp
    show "length pg < 30" by (rule Suc.prems(2))
    show "30 * (p - 1) + int (length pg) < review_no ?s" using Suc.prems(3) by simp
    show "review_no ?s + int m \<le> 30 * p + 1" using Suc.prems(4) by simp
  qed
  with step show ?case by (auto split: prod.splits)
qed

subsection \<open>A full first page\<close>

text \<open>
  C4. When the first listing page holds exactly 30 reviews, a request for the global
  index \<open>i\<close> between 1 and 30 computes the page \<open>ceil(i / 30) = 1\<close> and selects the
  review at the 0-based position \<open>i - 1\<close> of that page: that review is loaded in place
  and returned (or the exception of its load is raised), so the reviews of the page come
  in page order.
\<close>

theorem wp_review_full_first_page:
  assumes "1 \<le> i" and "i \<le> 30"
    and "cached_page env self 1 = (Inr pg, s1)" and "length pg = 30"
  shows "ceil_div i WORDPRESS_REVIEWS_PER_PAGE = 1 \<and>
         wp_review env self i =
           (case review_load env (pg ! nat (i - 1)) of
              (out, r) \<Rightarrow>
                (case out of Some e \<Rightarrow> Inl e | None \<Rightarrow> Inr r,
                 s1\<lparr>page_html := (page_html s1)(1 \<mapsto> pg[nat (i - 1) := r])\<rparr>))"
proof -
  from assms(1,2) have p: "ceil_div i 30 = 1" by (intro ceil_div_page) simp_all
  from assms(3) p have c: "cached_page env self (ceil_div i 30) = (Inr pg, s1)" by simp
  from assms(1,2,4) p have j: "1 \<le> i - 30 * (ceil_div i 30 - 1)"
      "i - 30 * (ceil_div i 30 - 1) \<le> int (length pg)" "length pg \<le> 30"
    by simp_all
  from wp_review_select [OF c j] p show ?thesis
    by (simp add: WORDPRESS_REVIEWS_PER_PAGE_def)
qed

theorem wp_review_full_first_page_witness:
  "(1::int) \<le> 7 \<and> (7::int) \<le> 30
   \<and> cached_page demo_env (list_init ''big'') 1
       = (Inr (demo_reviews ''big'' 1 31), snd (cached_page demo_env (list_init ''big'') 1))
   \<and> length (demo_reviews ''big'' 1 31) = 30
   \<and> ceil_div 7 WORDPRESS_REVIEWS_PER_PAGE = 1
   \<and> wp_review demo_env (list_init ''big'') 7 =
        (case review_load demo_env (demo_reviews ''big'' 1 31 ! nat (7 - 1)) of
           (out, r) \<Rightarrow>
             (case out of Some e \<Rightarrow> Inl e | None \<Rightarrow> Inr r,
              (snd (cached_page demo_env (list_init ''big'') 1))
                \<lparr>page_html := (page_html (snd (cached_page demo_env (list_init ''big'') 1)))
                     (1 \<mapsto> (demo_reviews ''big'' 1 31)[nat (7 - 1) := r])\<rparr>))
   \<and> path (demo_reviews ''big'' 1 31 ! nat (7 - 1)) = ''/support/topic/big-7/''"
proof -
  have f: "fst (cached_page demo_env (list_init ''big'') 1) = Inr (demo_reviews ''big'' 1 31)"
    by code_simp
  have h3: "cached_page demo_env (list_init ''big'') 1
       = (Inr (demo_reviews ''big'' 1 31), snd (cached_page demo_env (list_init ''big'') 1))"
    using f by (metis prod.collapse)
  have h4: "length (demo_reviews ''big'' 1 31) = 30" by (simp add: demo_reviews_def)
  have h5: "path (demo_reviews ''big'' 1 31 ! nat (7 - 1)) = ''/support/topic/big-7/''"
    by code_simp
  have h1: "(1::int) \<le> 7" and h2: "(7::int) \<le> 30" by simp_all
  from wp_review_full_first_page [OF h1 h2 h3 h4] h1 h2 h3 h4 h5 show ?thesis by blast
qed

subsection \<open>A short last page\<close>

text \<open>
  C1. Let the listing page \<open>p\<close> hold \<open>k\<close> reviews with \<open>0 < k < 30\<close>, let the
  cursor stand at the global index \<open>30 * (p - 1) + k\<close>, and let the indices of the
  page, which end at \<open>30 * p\<close>, be at most \<open>10 ^ 16\<close> (where the float quotient of the
  source has the integer ceiling). Then \<^verbatim>\<open>next()\<close> selects
  the last review of page \<open>p\<close>, loads it and returns it (an exception of that load is
  the only other outcome), and the call after it, at the index \<open>30 * (p - 1) + k + 1\<close>,
  raises \<open>StopIteration\<close> and nothing else.
\<close>

theorem next_on_short_last_page:
  assumes "0 < k" and "k < 30" and "review_no self = 30 * (p - 1) + int k"
    and "cached_page env self p = (Inr pg, s1)" and "length pg = k"
    and "0 < p" and "30 * p \<le> 10 ^ 16"
  shows "list_next env self =
           (case review_load env (last pg) of
              (out, r) \<Rightarrow>
                (case out of Some e \<Rightarrow> Inl e | None \<Rightarrow> Inr r,
                 s1\<lparr>review_no := review_no self + 1,
                    page_html := (page_html s1)(p \<mapsto> pg[k - 1 := r])\<rparr>))
         \<and> list_next env (snd (list_next env self)) =
             (Inl StopIteration, (snd (list_next env self))\<lparr>review_no := review_no self + 2\<rparr>)"
proof -
  let ?n = "review_no self"
  let ?self = "self\<lparr>review_no := ?n + 1\<rparr>"
  obtain out r where l: "review_load env (last pg) = (out, r)"
    by (cases "review_load env (last pg)")
  let ?s2 = "s1\<lparr>review_no := ?n + 1, page_html := (page_html s1)(p \<mapsto> pg[k - 1 := r])\<rparr>"
  from assms(1-3) have p: "ceil_div ?n 30 = p" by (intro ceil_div_page) simp_all
  from assms(4) have "cached_page env ?self p = (Inr pg, s1\<lparr>review_no := ?n + 1\<rparr>)"
    by (simp add: cached_page_review_no)
  with p have c: "cached_page env ?self (ceil_div ?n 30) = (Inr pg, s1\<lparr>review_no := ?n + 1\<rparr>)"
    by simp
  from assms(1-3,5) p have j: "1 \<le> ?n - 30 * (ceil_div ?n 30 - 1)"
      "?n - 30 * (ceil_div ?n 30 - 1) \<le> int (length pg)" "length pg \<le> 30"
    by simp_all
  from assms(1,3,5) p have pos: "nat (?n - 30 * (ceil_div ?n 30 - 1) - 1) = k - 1"
    by simp
  from assms(1,5) have "pg \<noteq> []" by auto
  then have "last pg = pg ! (length pg - 1)" by (rule last_conv_nth)
  with assms(5) have lst: "pg ! (k - 1) = last pg" by simp
  note sel = wp_review_select [OF c j, unfolded pos, unfolded p, unfolded lst]
  have first: "list_next env self =
           (case review_load env (last pg) of
              (out, r) \<Rightarrow>
                (case out of Some e \<Rightarrow> Inl e | None \<Rightarrow> Inr r,
                 s1\<lparr>review_no := ?n + 1,
                    page_html := (page_html s1)(p \<mapsto> pg[k - 1 := r])\<rparr>))"
    unfolding list_next_wp_review sel by simp
  with l have s2: "snd (list_next env self) = ?s2" by simp
  have "list_next env ?s2 = (Inl StopIteration, ?s2\<lparr>review_no := review_no ?s2 + 1\<rparr>)"
  proof (rule list_next_exhausted_step)
    show "page_html ?s2 p = Some (pg[k - 1 := r])" by simp
    show "length (pg[k - 1 := r]) < 30" using assms(2,5) by simp
    show "30 * (p - 1) + int (length (pg[k - 1 := r])) < review_no ?s2"
      using assms(3,5) by simp
    show "review_no ?s2 \<le> 30 * p" using assms(2,3) by simp
  qed
  then have "list_next env ?s2 = (Inl StopIteration, ?s2\<lparr>review_no := ?n + 2\<rparr>)"
    by simp
  with first s2 show ?thesis by simp
qed

theorem next_on_short_last_page_witness:
  "(0::nat) < 2 \<and> (2::nat) < 30 \<and> (0::int) < 2 \<and> 30 * (2::int) \<le> 10 ^ 16
   \<and> review_no ((list_init ''big'')\<lparr>review_no := 32\<rparr>) = 30 * (2 - 1) + int 2
   \<and> cached_page demo_env ((list_init ''big'')\<lparr>review_no := 32\<rparr>) 2
       = (Inr (demo_reviews ''big'' 31 33),
          snd (cached_page demo_env ((list_init ''big'')\<lparr>review_no := 32\<rparr>) 2))
   \<and> length (demo_reviews ''big'' 31 33) = 2
   \<and> path (last (demo_reviews ''big'' 31 33)) = ''/support/topic/big-32/''
   \<and> list_next demo_env ((list_init ''big'')\<lparr>review_no := 32\<rparr>) =
        (case review_load demo_env (last (demo_reviews ''big'' 31 33)) of
           (out, r) \<Rightarrow>
             (case out of Some e \<Rightarrow> Inl e | None \<Rightarrow> Inr r,
              (snd (cached_page demo_env ((list_init ''big'')\<lparr>review_no := 32\<rparr>) 2))
                \<lparr>review_no := review_no ((list_init ''big'')\<lparr>review_no := 32\<rparr>) + 1,
                 page_html :=
                   (page_html (snd (cached_page demo_env ((list_init ''big'')\<lparr>review_no := 32\<rparr>) 2)))
                     (2 \<mapsto> (demo_reviews ''big'' 31 33)[2 - 1 := r])\<rparr>))
   \<and> list_next demo_env (snd (list_next demo_env ((list_init ''big'')\<lparr>review_no := 32\<rparr>))) =
        (Inl StopIteration,
         (snd (list_next demo_env ((list_init ''big'')\<lparr>review_no := 32\<rparr>)))
           \<lparr>review_no := review_no ((list_init ''big'')\<lparr>review_no := 32\<rparr>) + 2\<rparr>)"
proof -
  let ?s = "(list_init ''big'')\<lparr>review_no := 32\<rparr>"
  have h1: "(0::nat) < 2" and h2: "(2::nat) < 30" by simp_all
  have h3: "review_no ?s = 30 * (2 - 1) + int 2" by simp
  have f: "fst (cached_page demo_env ?s 2) = Inr (demo_reviews ''big'' 31 33)" by code_simp
  have h4: "cached_page demo_env ?s 2
       = (Inr (demo_reviews ''big'' 31 33), snd (cached_page demo_env ?s 2))"
    using f by (metis prod.collapse)
  have h5: "length (demo_reviews ''big'' 31 33) = 2" by (simp add: demo_reviews_def)
  have h6: "path (last (demo_reviews ''big'' 31 33)) = ''/support/topic/big-32/''"
    by code_simp
  have h7: "(0::int) < 2" and h8: "30 * (2::int) \<le> 10 ^ 16" by simp_all
  from next_on_short_last_page [OF h1 h2 h3 h4 h5 h7 h8] h1 h2 h3 h4 h5 h6 h7 h8
  show ?thesis by blast
qed

subsection \<open>The counter\<close>

text \<open>
  C5, as the code has it. The counter \<^verbatim>\<open>review_no\<close> of a new cursor is 1, and every
  \<^verbatim>\<open>next()\<close> call adds exactly 1 to it before the review is looked up: also a call
  that raises \<open>StopIteration\<close> or fails in another way leaves the counter one higher.
\<close>

theorem review_no_advances_on_every_call:
  "review_no (list_init p) = 1 \<and> review_no (snd (list_next env self)) = review_no self + 1"
  by (simp add: list_init_def list_next_wp_review wp_review_review_no)

text \<open>
  The plugin \<open>none\<close> has no review: the first call on its new cursor raises
  \<open>StopIteration\<close>, and the counter is 2 afterwards, not 1.
\<close>

theorem exhausted_call_advances_review_no:
  "fst (list_next demo_env (list_init ''none'')) = Inl StopIteration
   \<and> review_no (list_init ''none'') = 1
   \<and> review_no (snd (list_next demo_env (list_init ''none''))) = 2
   \<and> review_no (snd (list_next demo_env (list_init ''none''))) \<noteq> review_no (list_init ''none'')"
proof -
  have a: "fst (list_next demo_env (list_init ''none'')) = Inl StopIteration" by code_simp
  have b: "review_no (list_init ''none'') = 1" by (simp add: list_init_def)
  have c: "review_no (snd (list_next demo_env (list_init ''none''))) = 2" by code_simp
  from a b c show ?thesis by simp
qed

subsection \<open>After exhaustion\<close>

text \<open>
  C3, as the code has it. Once a \<^verbatim>\<open>next()\<close> call at the index \<open>n\<close> has raised
  \<open>StopIteration\<close>, every later call whose index is still on the listing page of \<open>n\<close>,
  that is up to the index \<open>30 * ceil(n / 30)\<close>, raises \<open>StopIteration\<close> as well. The
  indices are positive and at most \<open>10 ^ 16\<close>, where the float quotient of the source
  has the integer ceiling.
\<close>

theorem exhaustion_lasts_to_the_end_of_the_page:
  assumes "list_next env self = (Inl StopIteration, s1)"
    and "review_no self + int m \<le> 30 * ceil_div (review_no self) 30"
    and "0 < review_no self" and "review_no self + int m \<le> 10 ^ 16"
  shows "fst (next_calls env m s1) = replicate m (Inl StopIteration)"
proof -
  let ?n = "review_no self"
  let ?self = "self\<lparr>review_no := ?n + 1\<rparr>"
  from assms(1) have w: "wp_review env ?self ?n = (Inl StopIteration, s1)"
    by (simp add: list_next_wp_review)
  then obtain pg where c: "cached_page env ?self (ceil_div ?n 30) = (Inr pg, s1)"
    and len: "length pg < 30"
    and j: "int (length pg) < ?n - 30 * (ceil_div ?n 30 - 1)"
    using wp_review_stop by blast
  from c have cached: "page_html s1 (ceil_div ?n 30) = Some pg" by (rule cached_page_cached)
  from c have rn: "review_no s1 = ?n + 1" by (simp add: cached_page_review_no_eq)
  show ?thesis
  proof (rule next_calls_exhausted [OF cached len])
    show "30 * (ceil_div ?n 30 - 1) + int (length pg) < review_no s1" using j rn by simp
    show "review_no s1 + int m \<le> 30 * ceil_div ?n 30 + 1" using assms(2) rn by simp
  qed
qed

theorem exhaustion_lasts_to_the_end_of_the_page_witness:
  "list_next demo_env (list_init ''none'')
     = (Inl StopIteration, snd (list_next demo_env (list_init ''none'')))
   \<and> review_no (list_init ''none'') + int 29 \<le> 30 * ceil_div (review_no (list_init ''none'')) 30
   \<and> 0 < review_no (list_init ''none'')
   \<and> review_no (list_init ''none'') + int 29 \<le> 10 ^ 16
   \<and> fst (next_calls demo_env 29 (snd (list_next demo_env (list_init ''none''))))
     = replicate 29 (Inl StopIteration)"
proof -
  have f: "fst (list_next demo_env (list_init ''none'')) = Inl StopIteration" by code_simp
  have h1: "list_next demo_env (list_init ''none'')
     = (Inl StopIteration, snd (list_next demo_env (list_init ''none'')))"
    using f by (metis prod.collapse)
  have h2: "review_no (list_init ''none'') + int 29
      \<le> 30 * ceil_div (review_no (list_init ''none'')) 30"
    by (simp add: list_init_def ceil_div_def)
  have h3: "0 < review_no (list_init ''none'')" by (simp add: list_init_def)
  have h4: "review_no (list_init ''none'') + int 29 \<le> 10 ^ 16" by (simp add: list_init_def)
  from exhaustion_lasts_to_the_end_of_the_page [OF h1 h2 h3 h4] h1 h2 h3 h4
  show ?thesis by blast
qed

text \<open>
  The claim as it stands, that every later call raises \<open>StopIteration\<close>, fails: on the
  plugin \<open>none\<close> the first thirty calls raise \<open>StopIteration\<close>, and the call at the
  index 31 asks for the second listing page, which answers 404, and raises
  \<open>ConnectionError\<close>.
\<close>

theorem exhaustion_not_stable:
  "fst (next_calls demo_env 31 (list_init ''none''))
     = replicate 30 (Inl StopIteration) @ [Inl (ConnectionError 404)]"
  by code_simp

section \<open>Properties of the run over all plugins\<close>

text \<open>
  When the cursor of a plugin raises \<open>StopIteration\<close> before the quota is reached, the
  handler's \<^verbatim>\<open>break\<close> ends the loop over the plugins: the rows so far are all the
  generator yields, and the plugins after it are never asked.
\<close>

lemma plugins_loop_break:
  assumes "quota_loop env p (nat n) cursors = (rows, Some StopIteration, cursors')"
  shows "plugins_loop env n (p # ps) cursors = (rows, None, cursors')"
  using assms by simp

lemma plugins_loop_continue:
  assumes "quota_loop env p (nat n) cursors = (rows, None, cursors')"
  shows "plugins_loop env n (p # ps) cursors =
           (case plugins_loop env n ps cursors' of
              (rows', out', cursors'') \<Rightarrow> (rows @ rows', out', cursors''))"
  using assms by simp

text \<open>
  C2, on the site: the plugin \<open>solo\<close> has one review and \<open>duo\<close> has two. Asked for
  two reviews of each, in the order \<open>solo\<close>, \<open>duo\<close>, the generator yields the one row
  of \<open>solo\<close> and returns: no row of \<open>duo\<close> is yielded. In the order \<open>duo\<close>,
  \<open>solo\<close> it yields all three rows.
\<close>

theorem reviews_ends_at_first_exhausted_plugin:
  "(case reviews demo_env (reviews_init (PluginList [''solo'', ''duo'']) 2) of
      (rows, out, self) \<Rightarrow> (map (\<lambda>row. (map_of row ''plugin'', map_of row ''path'')) rows, out))
     = ([(Some (PStr ''solo''), Some (PStr ''/support/topic/solo-1/''))], None)
   \<and> (case reviews demo_env (reviews_init (PluginList [''duo'', ''solo'']) 2) of
      (rows, out, self) \<Rightarrow> (map (\<lambda>row. (map_of row ''plugin'', map_of row ''path'')) rows, out))
     = ([(Some (PStr ''duo''), Some (PStr ''/support/topic/duo-1/'')),
         (Some (PStr ''duo''), Some (PStr ''/support/topic/duo-2/'')),
         (Some (PStr ''solo''), Some (PStr ''/support/topic/solo-1/''))], None)"
proof -
  have a: "(case reviews demo_env (reviews_init (PluginList [''solo'', ''duo'']) 2) of
      (rows, out, self) \<Rightarrow> (map (\<lambda>row. (map_of row ''plugin'', map_of row ''path'')) rows, out))
     = ([(Some (PStr ''solo''), Some (PStr ''/support/topic/solo-1/''))], None)"
    by code_simp
  have b: "(case reviews demo_env (reviews_init (PluginList [''duo'', ''solo'']) 2) of
      (rows, out, self) \<Rightarrow> (map (\<lambda>row. (map_of row ''plugin'', map_of row ''path'')) rows, out))
     = ([(Some (PStr ''duo''), Some (PStr ''/support/topic/duo-1/'')),
         (Some (PStr ''duo''), Some (PStr ''/support/topic/duo-2/'')),
         (Some (PStr ''solo''), Some (PStr ''/support/topic/solo-1/''))], None)"
    by code_simp
  from a b show ?thesis by (rule conjI)
qed

end
